theory Spec2Isabelle
  imports Complex_Main
begin

chapter \<open>Earthquake ELT pipeline: the transform statement and the task chain\<close>

text \<open>
  The development follows \<^verbatim>\<open>src/dags/earthquake_elt_dag.py\<close>. The transform is a single
  SQL statement (\<^verbatim>\<open>TRANSFORM_SQL\<close>) executed by the warehouse; its expressions are
  embedded one by one, with SQL's \<^verbatim>\<open>NULL\<close> as \<open>None\<close> and an error raised by the
  engine as \<open>Inl\<close> of a sum type, because an error in any expression aborts the whole
  statement.
\<close>

section \<open>SQL values\<close>

text \<open>A text column is nullable; a \<^verbatim>\<open>NUMERIC\<close> value is an exact decimal.\<close>

type_synonym sql_text = "string option"
type_synonym sql_numeric = "rat option"
type_synonym sql_bool = "bool option"

datatype sql_error =
    NumericValueOutOfRange
  | InvalidTextRepresentation
  | InvalidDatetimeFormat
  | DatetimeFieldOverflow

subsection \<open>Three-valued logic\<close>

definition sql_lt :: "sql_numeric \<Rightarrow> sql_numeric \<Rightarrow> sql_bool" where
  "sql_lt a b = (case a of None \<Rightarrow> None | Some x \<Rightarrow> (case b of None \<Rightarrow> None | Some y \<Rightarrow> Some (x < y)))"

definition sql_ge :: "sql_numeric \<Rightarrow> sql_numeric \<Rightarrow> sql_bool" where
  "sql_ge a b = (case a of None \<Rightarrow> None | Some x \<Rightarrow> (case b of None \<Rightarrow> None | Some y \<Rightarrow> Some (y \<le> x)))"

fun sql_and :: "sql_bool \<Rightarrow> sql_bool \<Rightarrow> sql_bool" where
  "sql_and (Some False) _ = Some False"
| "sql_and _ (Some False) = Some False"
| "sql_and (Some True) (Some True) = Some True"
| "sql_and _ _ = None"

fun sql_or :: "sql_bool \<Rightarrow> sql_bool \<Rightarrow> sql_bool" where
  "sql_or (Some True) _ = Some True"
| "sql_or _ (Some True) = Some True"
| "sql_or (Some False) (Some False) = Some False"
| "sql_or _ _ = None"

text \<open>A \<^verbatim>\<open>WHEN\<close> branch and a \<^verbatim>\<open>WHERE\<close> clause fire only on \<^verbatim>\<open>TRUE\<close>.\<close>

definition is_true :: "sql_bool \<Rightarrow> bool" where
  "is_true b = (b = Some True)"

definition IS_NOT_NULL :: "'a option \<Rightarrow> bool" where
  "IS_NOT_NULL v = (v \<noteq> None)"

subsection \<open>Text functions\<close>

text \<open>\<^verbatim>\<open>TRIM(x)\<close> removes space characters (and nothing else) from both ends.\<close>

definition TRIM :: "string \<Rightarrow> string" where
  "TRIM s = rev (dropWhile (\<lambda>c. c = CHR '' '') (rev (dropWhile (\<lambda>c. c = CHR '' '') s)))"

text \<open>
  \<^verbatim>\<open>LOWER\<close> and the case folding of \<^verbatim>\<open>ILIKE\<close> follow the database locale; the model
  folds the ASCII letters, which is what every pattern of the statement consists of.
\<close>

definition lower_char :: "char \<Rightarrow> char" where
  "lower_char c =
     (case map_of (zip ''ABCDEFGHIJKLMNOPQRSTUVWXYZ'' ''abcdefghijklmnopqrstuvwxyz'') c of
        Some l \<Rightarrow> l
      | None \<Rightarrow> c)"

definition LOWER :: "string \<Rightarrow> string" where
  "LOWER s = map lower_char s"

fun starts_with :: "string \<Rightarrow> string \<Rightarrow> bool" where
  "starts_with [] s = True"
| "starts_with (p # ps) [] = False"
| "starts_with (p # ps) (c # cs) = (p = c \<and> starts_with ps cs)"

fun contains :: "string \<Rightarrow> string \<Rightarrow> bool" where
  "contains p [] = (p = [])"
| "contains p (c # cs) = (starts_with p (c # cs) \<or> contains p cs)"

text \<open>\<^verbatim>\<open>x ILIKE '%P%'\<close>: case-insensitive containment, \<^verbatim>\<open>NULL\<close> on a \<^verbatim>\<open>NULL\<close> text.\<close>

definition ILIKE_contains :: "sql_text \<Rightarrow> string \<Rightarrow> sql_bool" where
  "ILIKE_contains x p = (case x of None \<Rightarrow> None | Some s \<Rightarrow> Some (contains (LOWER p) (LOWER s)))"

section \<open>Numeric coercion\<close>

subsection \<open>The two regular expressions\<close>

definition is_digit :: "char \<Rightarrow> bool" where
  "is_digit c = (c \<in> set ''0123456789'')"

text \<open>\<^verbatim>\<open>'^[0-9]+\.?[0-9]*$'\<close>, used for \<^verbatim>\<open>magnitud\<close> and \<^verbatim>\<open>profundidad\<close>.\<close>

definition matches_unsigned :: "string \<Rightarrow> bool" where
  "matches_unsigned s =
     (takeWhile is_digit s \<noteq> [] \<and>
      (case dropWhile is_digit s of
         [] \<Rightarrow> True
       | c # r \<Rightarrow> c = CHR ''.'' \<and> list_all is_digit r))"

text \<open>\<^verbatim>\<open>'^-?[0-9]+\.?[0-9]*$'\<close>, used for \<^verbatim>\<open>latitud\<close> and \<^verbatim>\<open>longitud\<close>.\<close>

definition matches_signed :: "string \<Rightarrow> bool" where
  "matches_signed s =
     (case s of
        [] \<Rightarrow> False
      | c # r \<Rightarrow> if c = CHR ''-'' then matches_unsigned r else matches_unsigned s)"

subsection \<open>The cast to \<^verbatim>\<open>NUMERIC(p,s)\<close>\<close>

definition digit_val :: "char \<Rightarrow> nat" where
  "digit_val c = (case map_of (zip ''0123456789'' [0, 1, 2, 3, 4, 5, 6, 7, 8, 9]) c of Some d \<Rightarrow> d | None \<Rightarrow> 0)"

definition digits_val :: "string \<Rightarrow> nat" where
  "digits_val ds = foldl (\<lambda>a c. 10 * a + digit_val c) 0 ds"

text \<open>
  Rounding of \<open>m / 10 ^ k\<close> (a non-negative decimal with \<open>k\<close> fractional digits) to \<open>s\<close>
  fractional digits, in units of \<open>10 ^ -s\<close>; ties go away from zero, as the engine's
  \<^verbatim>\<open>numeric\<close> type rounds.
\<close>

definition rescale :: "nat \<Rightarrow> nat \<Rightarrow> nat \<Rightarrow> nat" where
  "rescale m k s =
     (if k \<le> s then m * 10 ^ (s - k)
      else (2 * m + 10 ^ (k - s)) div (2 * 10 ^ (k - s)))"

text \<open>
  \<^verbatim>\<open>CAST(t AS NUMERIC(p,s))\<close> on a text of the signed decimal shape: the value is rounded
  to \<open>s\<close> fractional digits and must then have at most \<open>p - s\<close> integer digits, otherwise
  the engine raises (numeric field overflow). The statement calls the cast only behind one of
  the two patterns above; a text of any other shape is reported as an invalid
  representation here.
\<close>

definition is_negative :: "string \<Rightarrow> bool" where
  "is_negative t = (case t of [] \<Rightarrow> False | c # r \<Rightarrow> c = CHR ''-'')"

definition units_of :: "nat \<Rightarrow> string \<Rightarrow> nat" where
  "units_of s t =
     (let u = (if is_negative t then tl t else t);
          ip = takeWhile is_digit u;
          fp = filter is_digit (dropWhile is_digit u)
      in rescale (digits_val (ip @ fp)) (length fp) s)"

definition CAST_NUMERIC :: "nat \<Rightarrow> nat \<Rightarrow> string \<Rightarrow> sql_error + rat" where
  "CAST_NUMERIC p s t =
     (if \<not> matches_signed t then Inl InvalidTextRepresentation
      else if 10 ^ p \<le> units_of s t then Inl NumericValueOutOfRange
      else Inr ((if is_negative t then - 1 else 1) * of_nat (units_of s t) / 10 ^ s))"

text \<open>The value fits the precision: after rounding it has at most \<open>p - s\<close> integer digits.\<close>

definition fits :: "nat \<Rightarrow> nat \<Rightarrow> string \<Rightarrow> bool" where
  "fits p s t = (units_of s t < 10 ^ p)"

subsection \<open>The four guarded casts of \<^verbatim>\<open>parsed_data\<close>\<close>

text \<open>
  \<^verbatim>\<open>CASE WHEN TRIM(x) ~ re THEN CAST(TRIM(x) AS NUMERIC(p,s)) ELSE NULL END\<close>. On a
  \<^verbatim>\<open>NULL\<close> text the match is \<^verbatim>\<open>NULL\<close>, so the \<^verbatim>\<open>ELSE\<close> branch is taken.
\<close>

definition guarded_cast :: "(string \<Rightarrow> bool) \<Rightarrow> nat \<Rightarrow> nat \<Rightarrow> sql_text \<Rightarrow> sql_error + sql_numeric" where
  "guarded_cast re p s x =
     (case x of
        None \<Rightarrow> Inr None
      | Some t \<Rightarrow>
          if re (TRIM t) then
            (case CAST_NUMERIC p s (TRIM t) of Inl e \<Rightarrow> Inl e | Inr v \<Rightarrow> Inr (Some v))
          else Inr None)"

definition magnitude_of :: "sql_text \<Rightarrow> sql_error + sql_numeric" where
  "magnitude_of magnitud = guarded_cast matches_unsigned 3 1 magnitud"

definition latitude_of :: "sql_text \<Rightarrow> sql_error + sql_numeric" where
  "latitude_of latitud = guarded_cast matches_signed 8 5 latitud"

definition longitude_of :: "sql_text \<Rightarrow> sql_error + sql_numeric" where
  "longitude_of longitud = guarded_cast matches_signed 8 5 longitud"

definition depth_km_of :: "sql_text \<Rightarrow> sql_error + sql_numeric" where
  "depth_km_of profundidad = guarded_cast matches_unsigned 6 2 profundidad"

section \<open>Feature engineering\<close>

definition magnitude_category_of :: "sql_numeric \<Rightarrow> string" where
  "magnitude_category_of magnitude =
     (if is_true (sql_lt magnitude (Some 3.0)) then ''Minor''
      else if is_true (sql_and (sql_ge magnitude (Some 3.0)) (sql_lt magnitude (Some 4.0))) then ''Light''
      else if is_true (sql_and (sql_ge magnitude (Some 4.0)) (sql_lt magnitude (Some 5.0))) then ''Moderate''
      else if is_true (sql_and (sql_ge magnitude (Some 5.0)) (sql_lt magnitude (Some 6.0))) then ''Strong''
      else if is_true (sql_and (sql_ge magnitude (Some 6.0)) (sql_lt magnitude (Some 7.0))) then ''Major''
      else if is_true (sql_ge magnitude (Some 7.0)) then ''Great''
      else ''Unknown'')"

definition depth_category_of :: "sql_numeric \<Rightarrow> string" where
  "depth_category_of depth_km =
     (if is_true (sql_lt depth_km (Some 70)) then ''Shallow''
      else if is_true (sql_and (sql_ge depth_km (Some 70)) (sql_lt depth_km (Some 300))) then ''Intermediate''
      else if is_true (sql_ge depth_km (Some 300)) then ''Deep''
      else ''Unknown'')"

text \<open>The first region is spelled with an accented a (two bytes in UTF-8).\<close>

definition region_of :: "sql_text \<Rightarrow> string" where
  "region_of location_reference =
     (if is_true (ILIKE_contains location_reference ''MICH'') then ''Michoac'' @ [CHR 0xC3, CHR 0xA1] @ ''n''
      else if is_true (sql_or (ILIKE_contains location_reference ''OAXACA'')
                              (ILIKE_contains location_reference ''OAX'')) then ''Oaxaca''
      else if is_true (sql_or (ILIKE_contains location_reference ''GUERRERO'')
                              (ILIKE_contains location_reference ''GRO'')) then ''Guerrero''
      else if is_true (sql_or (ILIKE_contains location_reference ''CHIAPAS'')
                              (ILIKE_contains location_reference ''CHIS'')) then ''Chiapas''
      else if is_true (sql_or (ILIKE_contains location_reference ''CDMX'')
                              (ILIKE_contains location_reference ''CIUDAD DE MEXICO'')) then ''CDMX''
      else if is_true (sql_or (ILIKE_contains location_reference ''PUEBLA'')
                              (ILIKE_contains location_reference ''PUE'')) then ''Puebla''
      else if is_true (sql_or (ILIKE_contains location_reference ''VERACRUZ'')
                              (ILIKE_contains location_reference ''VER'')) then ''Veracruz''
      else ''Other'')"

text \<open>\<^verbatim>\<open>(magnitude >= 5.0 OR depth_km < 50) as is_significant\<close>: a three-valued result.\<close>

definition is_significant_of :: "sql_numeric \<Rightarrow> sql_numeric \<Rightarrow> sql_bool" where
  "is_significant_of magnitude depth_km =
     sql_or (sql_ge magnitude (Some 5.0)) (sql_lt depth_km (Some 50))"

section \<open>Dates and the engine's date functions\<close>

record date =
  d_year :: int
  d_month :: nat
  d_day :: nat

record timestamp =
  ts_date :: date
  ts_hour :: nat
  ts_minute :: nat
  ts_second :: nat

text \<open>
  \<^verbatim>\<open>TO_DATE(t, 'DD/MM/YYYY')\<close>, \<^verbatim>\<open>TO_TIMESTAMP(t, 'DD/MM/YYYY HH24:MI:SS')\<close> and
  \<^verbatim>\<open>TO_CHAR(d, 'Day')\<close> are functions of the database engine, not of this repository.
  The transform takes them as a parameter: the first two either return a value or raise.
\<close>

record engine =
  to_date :: "string \<Rightarrow> sql_error + date"
  to_timestamp :: "string \<Rightarrow> sql_error + timestamp"
  to_char_day :: "date \<Rightarrow> string"

text \<open>The engine's functions are strict: a \<^verbatim>\<open>NULL\<close> argument gives \<^verbatim>\<open>NULL\<close>.\<close>

definition strict :: "('a \<Rightarrow> sql_error + 'b) \<Rightarrow> 'a option \<Rightarrow> sql_error + 'b option" where
  "strict f x =
     (case x of
        None \<Rightarrow> Inr None
      | Some v \<Rightarrow> (case f v of Inl e \<Rightarrow> Inl e | Inr y \<Rightarrow> Inr (Some y)))"

text \<open>\<^verbatim>\<open>a || ' ' || b\<close>: concatenation is \<^verbatim>\<open>NULL\<close> as soon as one side is.\<close>

definition concat_ws_space :: "sql_text \<Rightarrow> sql_text \<Rightarrow> sql_text" where
  "concat_ws_space a b =
     (case a of None \<Rightarrow> None | Some x \<Rightarrow> (case b of None \<Rightarrow> None | Some y \<Rightarrow> Some (x @ '' '' @ y)))"

subsection \<open>A reference engine\<close>

text \<open>
  For evaluation on concrete rows the development uses an engine that accepts the texts of
  exactly the shape of the format (two digits, slash, two digits, slash, four digits, and
  for a timestamp a space and \<^verbatim>\<open>hh:mm:ss\<close>) naming an existing calendar day and time,
  and raises on every other text. The database engine tolerates some near misses of the
  format; the general theorems below hold for any engine, and the concrete rows use
  well-formed dates and texts that begin with a letter.
\<close>

definition leap_year :: "nat \<Rightarrow> bool" where
  "leap_year y = (y mod 4 = 0 \<and> (y mod 100 \<noteq> 0 \<or> y mod 400 = 0))"

definition days_in_month :: "nat \<Rightarrow> nat \<Rightarrow> nat" where
  "days_in_month y m =
     (if m = 2 then (if leap_year y then 29 else 28)
      else if m \<in> {4, 6, 9, 11} then 30 else 31)"

definition ref_to_date :: "string \<Rightarrow> sql_error + date" where
  "ref_to_date t =
     (if length t = 10 \<and> t ! 2 = CHR ''/'' \<and> t ! 5 = CHR ''/'' \<and>
         list_all is_digit (take 2 t @ take 2 (drop 3 t) @ drop 6 t)
      then
        let d = digits_val (take 2 t); m = digits_val (take 2 (drop 3 t)); y = digits_val (drop 6 t)
        in if 1 \<le> y \<and> 1 \<le> m \<and> m \<le> 12 \<and> 1 \<le> d \<and> d \<le> days_in_month y m
           then Inr \<lparr>d_year = int y, d_month = m, d_day = d\<rparr>
           else Inl DatetimeFieldOverflow
      else Inl InvalidDatetimeFormat)"

definition ref_to_timestamp :: "string \<Rightarrow> sql_error + timestamp" where
  "ref_to_timestamp t =
     (if length t = 19 \<and> t ! 10 = CHR '' '' \<and> t ! 13 = CHR '':'' \<and> t ! 16 = CHR '':'' \<and>
         list_all is_digit (take 2 (drop 11 t) @ take 2 (drop 14 t) @ drop 17 t)
      then
        (case ref_to_date (take 10 t) of
           Inl e \<Rightarrow> Inl e
         | Inr d \<Rightarrow>
             let h = digits_val (take 2 (drop 11 t)); mi = digits_val (take 2 (drop 14 t));
                 se = digits_val (drop 17 t)
             in if h < 24 \<and> mi < 60 \<and> se < 60
                then Inr \<lparr>ts_date = d, ts_hour = h, ts_minute = mi, ts_second = se\<rparr>
                else Inl DatetimeFieldOverflow)
      else Inl InvalidDatetimeFormat)"

text \<open>Day of the week (0 is Sunday) and its name, blank-padded to nine characters.\<close>

definition day_of_week_index :: "date \<Rightarrow> nat" where
  "day_of_week_index d =
     (let y = (if d_month d < 3 then nat (d_year d) - 1 else nat (d_year d));
          t = [0, 3, 2, 5, 0, 3, 5, 1, 4, 6, 2, 4] ! (d_month d - 1)
      in (y + y div 4 - y div 100 + y div 400 + t + d_day d) mod 7)"

definition ref_to_char_day :: "date \<Rightarrow> string" where
  "ref_to_char_day d =
     [''Sunday   '', ''Monday   '', ''Tuesday  '', ''Wednesday'', ''Thursday '', ''Friday   '',
      ''Saturday ''] ! day_of_week_index d"

definition ref_engine :: engine where
  "ref_engine = \<lparr>to_date = ref_to_date, to_timestamp = ref_to_timestamp, to_char_day = ref_to_char_day\<rparr>"

section \<open>The tables\<close>

text \<open>
  Modelled from the spec: the schemas of \<^verbatim>\<open>raw_earthquakes\<close> and
  \<^verbatim>\<open>analytics_earthquakes\<close> (the table definitions are not among the sources). The raw
  store is one wide table of text columns plus \<^verbatim>\<open>batch_id\<close> and \<^verbatim>\<open>loaded_at\<close>; the
  analytics store has the typed columns the statement inserts. No uniqueness constraint is
  stated for either, so a table is the list of its rows. The record keeps the raw columns the
  transform reads; the serial \<^verbatim>\<open>id\<close> is selected by \<^verbatim>\<open>parsed_data\<close> and never used.
\<close>

record raw_row =
  raw_batch_id :: sql_text
  loaded_at :: nat
  fecha_utc :: sql_text
  hora_utc :: sql_text
  magnitud :: sql_text
  latitud :: sql_text
  longitud :: sql_text
  profundidad :: sql_text
  referencia_localizacion :: sql_text
  estatus :: sql_text

record parsed_row =
  p_batch_id :: sql_text
  p_earthquake_date :: "date option"
  p_earthquake_datetime :: "timestamp option"
  p_magnitude :: sql_numeric
  p_latitude :: sql_numeric
  p_longitude :: sql_numeric
  p_depth_km :: sql_numeric
  p_location_reference :: sql_text
  p_status :: sql_text

record analytics_row =
  earthquake_date :: "date option"
  earthquake_datetime :: "timestamp option"
  magnitude :: sql_numeric
  latitude :: sql_numeric
  longitude :: sql_numeric
  depth_km :: sql_numeric
  location_reference :: sql_text
  status :: sql_text
  year :: "int option"
  month :: "nat option"
  day_of_week :: sql_text
  hour_of_day :: "nat option"
  magnitude_category :: string
  depth_category :: string
  region :: string
  is_significant :: sql_bool
  batch_id :: sql_text

section \<open>The transform statement\<close>

subsection \<open>\<^verbatim>\<open>parsed_data\<close>\<close>

text \<open>
  One row of the common table expression. The select list is evaluated in the order it is
  written; the first expression that raises aborts the row, and with it the statement. (An
  engine is free to leave out the expressions of a row that the \<^verbatim>\<open>WHERE\<close> clause of
  the \<^verbatim>\<open>INSERT\<close> excludes; the theorems about a raised error are therefore stated for
  rows that pass that clause, or for the three fields the clause itself reads.)
\<close>

definition parse_row :: "engine \<Rightarrow> raw_row \<Rightarrow> sql_error + parsed_row" where
  "parse_row E r =
     (case strict (to_date E) (fecha_utc r) of Inl e \<Rightarrow> Inl e | Inr ed \<Rightarrow>
     (case strict (to_timestamp E) (concat_ws_space (fecha_utc r) (hora_utc r)) of Inl e \<Rightarrow> Inl e | Inr edt \<Rightarrow>
     (case magnitude_of (magnitud r) of Inl e \<Rightarrow> Inl e | Inr mag \<Rightarrow>
     (case latitude_of (latitud r) of Inl e \<Rightarrow> Inl e | Inr lat \<Rightarrow>
     (case longitude_of (longitud r) of Inl e \<Rightarrow> Inl e | Inr lon \<Rightarrow>
     (case depth_km_of (profundidad r) of Inl e \<Rightarrow> Inl e | Inr dep \<Rightarrow>
      Inr \<lparr>p_batch_id = raw_batch_id r,
           p_earthquake_date = ed,
           p_earthquake_datetime = edt,
           p_magnitude = mag,
           p_latitude = lat,
           p_longitude = lon,
           p_depth_km = dep,
           p_location_reference = map_option TRIM (referencia_localizacion r),
           p_status = map_option (LOWER \<circ> TRIM) (estatus r)\<rparr>))))))"

text \<open>Evaluating a list of rows: the first error wins.\<close>

fun all_rows :: "('a \<Rightarrow> sql_error + 'b) \<Rightarrow> 'a list \<Rightarrow> sql_error + 'b list" where
  "all_rows f [] = Inr []"
| "all_rows f (x # xs) =
     (case f x of
        Inl e \<Rightarrow> Inl e
      | Inr y \<Rightarrow> (case all_rows f xs of Inl e \<Rightarrow> Inl e | Inr ys \<Rightarrow> Inr (y # ys)))"

text \<open>\<^verbatim>\<open>FROM raw_earthquakes WHERE batch_id = '...'\<close>\<close>

definition batch_rows :: "string \<Rightarrow> raw_row list \<Rightarrow> raw_row list" where
  "batch_rows b raw = filter (\<lambda>r. raw_batch_id r = Some b) raw"

definition parsed_data :: "engine \<Rightarrow> string \<Rightarrow> raw_row list \<Rightarrow> sql_error + parsed_row list" where
  "parsed_data E b raw = all_rows (parse_row E) (batch_rows b raw)"

subsection \<open>The \<^verbatim>\<open>INSERT ... SELECT\<close>\<close>

text \<open>
  \<^verbatim>\<open>WHERE magnitude IS NOT NULL AND latitude IS NOT NULL AND longitude IS NOT NULL\<close>
\<close>

definition gate :: "parsed_row \<Rightarrow> bool" where
  "gate p = (IS_NOT_NULL (p_magnitude p) \<and> IS_NOT_NULL (p_latitude p) \<and> IS_NOT_NULL (p_longitude p))"

definition select_row :: "engine \<Rightarrow> parsed_row \<Rightarrow> analytics_row" where
  "select_row E p =
     \<lparr>earthquake_date = p_earthquake_date p,
      earthquake_datetime = p_earthquake_datetime p,
      magnitude = p_magnitude p,
      latitude = p_latitude p,
      longitude = p_longitude p,
      depth_km = p_depth_km p,
      location_reference = p_location_reference p,
      status = p_status p,
      year = map_option d_year (p_earthquake_date p),
      month = map_option d_month (p_earthquake_date p),
      day_of_week = map_option (to_char_day E) (p_earthquake_date p),
      hour_of_day = map_option ts_hour (p_earthquake_datetime p),
      magnitude_category = magnitude_category_of (p_magnitude p),
      depth_category = depth_category_of (p_depth_km p),
      region = region_of (p_location_reference p),
      is_significant = is_significant_of (p_magnitude p) (p_depth_km p),
      batch_id = p_batch_id p\<rparr>"

text \<open>
  The statement: either it raises and the table is left as it was, or it appends the
  selected rows. There is no \<^verbatim>\<open>DELETE\<close> and no \<^verbatim>\<open>ON CONFLICT\<close> clause.
\<close>

definition inserted_rows :: "engine \<Rightarrow> string \<Rightarrow> raw_row list \<Rightarrow> sql_error + analytics_row list" where
  "inserted_rows E b raw =
     (case parsed_data E b raw of
        Inl e \<Rightarrow> Inl e
      | Inr ps \<Rightarrow> Inr (map (select_row E) (filter gate ps)))"

definition TRANSFORM_SQL ::
  "engine \<Rightarrow> string \<Rightarrow> raw_row list \<Rightarrow> analytics_row list \<Rightarrow> sql_error + analytics_row list" where
  "TRANSFORM_SQL E b raw analytics =
     (case inserted_rows E b raw of
        Inl e \<Rightarrow> Inl e
      | Inr rows \<Rightarrow> Inr (analytics @ rows))"

section \<open>The pattern as the specification words it\<close>

text \<open>
  The specification describes one pattern for all four numeric fields: an optional leading
  minus, one or more digits, an optional fractional part. The fractional part is read here as
  a point followed by any number of digits, the reading closest to the source's patterns.
\<close>

definition spec_decimal_pattern :: "string \<Rightarrow> bool" where
  "spec_decimal_pattern s =
     (\<exists>sign ds frac.
        (sign = [] \<or> sign = ''-'') \<and> ds \<noteq> [] \<and> list_all is_digit ds \<and>
        (frac = [] \<or> (\<exists>fs. frac = ''.'' @ fs \<and> list_all is_digit fs)) \<and>
        s = sign @ ds @ frac)"

section \<open>Example rows\<close>

text \<open>
  The first row of the end-to-end scenario of the specification (magnitude 5.2, latitude 18.1,
  longitude -99.2, depth 10), with a well-formed date, and variants of it.
\<close>

definition row_good :: raw_row where
  "row_good =
     \<lparr>raw_batch_id = Some ''20240101T000000'', loaded_at = 0,
      fecha_utc = Some ''19/09/2017'', hora_utc = Some ''18:14:40'',
      magnitud = Some ''5.2'', latitud = Some ''18.1'', longitud = Some ''-99.2'',
      profundidad = Some ''10'', referencia_localizacion = Some '' PINOTEPA, OAX '',
      estatus = Some ''Revisado''\<rparr>"

definition parsed_good :: parsed_row where
  "parsed_good =
     \<lparr>p_batch_id = Some ''20240101T000000'',
      p_earthquake_date = Some \<lparr>d_year = 2017, d_month = 9, d_day = 19\<rparr>,
      p_earthquake_datetime =
        Some \<lparr>ts_date = \<lparr>d_year = 2017, d_month = 9, d_day = 19\<rparr>,
              ts_hour = 18, ts_minute = 14, ts_second = 40\<rparr>,
      p_magnitude = Some 5.2, p_latitude = Some 18.1, p_longitude = Some (- 99.2),
      p_depth_km = Some 10, p_location_reference = Some ''PINOTEPA, OAX'',
      p_status = Some ''revisado''\<rparr>"

definition analytics_good :: analytics_row where
  "analytics_good =
     \<lparr>earthquake_date = Some \<lparr>d_year = 2017, d_month = 9, d_day = 19\<rparr>,
      earthquake_datetime =
        Some \<lparr>ts_date = \<lparr>d_year = 2017, d_month = 9, d_day = 19\<rparr>,
              ts_hour = 18, ts_minute = 14, ts_second = 40\<rparr>,
      magnitude = Some 5.2, latitude = Some 18.1, longitude = Some (- 99.2), depth_km = Some 10,
      location_reference = Some ''PINOTEPA, OAX'', status = Some ''revisado'',
      year = Some 2017, month = Some 9, day_of_week = Some ''Tuesday  '', hour_of_day = Some 18,
      magnitude_category = ''Strong'', depth_category = ''Shallow'', region = ''Oaxaca'',
      is_significant = Some True, batch_id = Some ''20240101T000000''\<rparr>"

definition row_not_computable :: raw_row where
  "row_not_computable = row_good\<lparr>magnitud := Some ''not computable''\<rparr>"

definition row_bad_latitude :: raw_row where
  "row_bad_latitude =
     row_good\<lparr>magnitud := Some ''2.1'', latitud := Some ''bad'', longitud := Some ''-100'',
              profundidad := Some ''5''\<rparr>"

definition row_bad_date :: raw_row where
  "row_bad_date = row_good\<lparr>fecha_utc := Some ''sin fecha''\<rparr>"

definition row_overflow :: raw_row where
  "row_overflow = row_good\<lparr>magnitud := Some ''100''\<rparr>"

definition row_no_date :: raw_row where
  "row_no_date = row_good\<lparr>fecha_utc := None\<rparr>"

section \<open>The schema normalizer\<close>

text \<open>
  A Python \<^verbatim>\<open>str\<close> is a sequence of Unicode code points; a column label is modelled as
  the list of its code points. \<^verbatim>\<open>normalize_column_name\<close> uses five functions of Python's
  Unicode database, which are not part of this repository and are taken as a parameter:
  \<^verbatim>\<open>unicodedata.normalize('NFD', s)\<close>, the test \<^verbatim>\<open>unicodedata.category(c) != 'Mn'\<close>,
  the white space \<^verbatim>\<open>str.strip\<close> removes, \<^verbatim>\<open>str.lower\<close> and \<^verbatim>\<open>str.isalnum\<close>.
\<close>

type_synonym ustr = "nat list"

record ucd =
  nfd :: "ustr \<Rightarrow> ustr"
  is_Mn :: "nat \<Rightarrow> bool"
  isspace :: "nat \<Rightarrow> bool"
  lower :: "ustr \<Rightarrow> ustr"
  isalnum :: "nat \<Rightarrow> bool"

definition strip :: "ucd \<Rightarrow> ustr \<Rightarrow> ustr" where
  "strip U s = rev (dropWhile (isspace U) (rev (dropWhile (isspace U) s)))"

text \<open>\<^verbatim>\<open>s.replace(' ', '_')\<close>: the space is U+0020, the underscore U+005F.\<close>

definition replace_space :: "ustr \<Rightarrow> ustr" where
  "replace_space s = map (\<lambda>c. if c = 0x20 then 0x5F else c) s"

definition normalize_column_name :: "ucd \<Rightarrow> ustr \<Rightarrow> ustr" where
  "normalize_column_name U col_name =
     (let col_name1 = filter (\<lambda>c. \<not> is_Mn U c) (nfd U col_name);
          col_name2 = replace_space (lower U (strip U col_name1))
      in filter (\<lambda>c. isalnum U c \<or> c = 0x5F) col_name2)"

subsection \<open>The Unicode data of the Latin labels\<close>

text \<open>
  For evaluation on concrete labels: the Unicode data of the blocks Basic Latin and Latin-1
  Supplement (U+0000 to U+00FF) and Combining Diacritical Marks (U+0300 to U+036F), and of
  the letter U+03D2 (an uppercase letter without a lowercase form). On these code points
  lower-casing acts on each code point by itself, and the canonical decomposition replaces
  each code point by its decomposition; the canonical reordering of adjacent combining marks
  is left out, since the next step of the normalizer deletes every one of them. Other code
  points are outside this data and are never used in the examples.
\<close>

definition decomposition :: "(nat \<times> nat list) list" where
  "decomposition =
    [(0xC0, [0x41, 0x300]), (0xC1, [0x41, 0x301]), (0xC2, [0x41, 0x302]),
     (0xC3, [0x41, 0x303]), (0xC4, [0x41, 0x308]), (0xC5, [0x41, 0x30A]),
     (0xC7, [0x43, 0x327]), (0xC8, [0x45, 0x300]), (0xC9, [0x45, 0x301]),
     (0xCA, [0x45, 0x302]), (0xCB, [0x45, 0x308]), (0xCC, [0x49, 0x300]),
     (0xCD, [0x49, 0x301]), (0xCE, [0x49, 0x302]), (0xCF, [0x49, 0x308]),
     (0xD1, [0x4E, 0x303]), (0xD2, [0x4F, 0x300]), (0xD3, [0x4F, 0x301]),
     (0xD4, [0x4F, 0x302]), (0xD5, [0x4F, 0x303]), (0xD6, [0x4F, 0x308]),
     (0xD9, [0x55, 0x300]), (0xDA, [0x55, 0x301]), (0xDB, [0x55, 0x302]),
     (0xDC, [0x55, 0x308]), (0xDD, [0x59, 0x301]), (0xE0, [0x61, 0x300]),
     (0xE1, [0x61, 0x301]), (0xE2, [0x61, 0x302]), (0xE3, [0x61, 0x303]),
     (0xE4, [0x61, 0x308]), (0xE5, [0x61, 0x30A]), (0xE7, [0x63, 0x327]),
     (0xE8, [0x65, 0x300]), (0xE9, [0x65, 0x301]), (0xEA, [0x65, 0x302]),
     (0xEB, [0x65, 0x308]), (0xEC, [0x69, 0x300]), (0xED, [0x69, 0x301]),
     (0xEE, [0x69, 0x302]), (0xEF, [0x69, 0x308]), (0xF1, [0x6E, 0x303]),
     (0xF2, [0x6F, 0x300]), (0xF3, [0x6F, 0x301]), (0xF4, [0x6F, 0x302]),
     (0xF5, [0x6F, 0x303]), (0xF6, [0x6F, 0x308]), (0xF9, [0x75, 0x300]),
     (0xFA, [0x75, 0x301]), (0xFB, [0x75, 0x302]), (0xFC, [0x75, 0x308]),
     (0xFD, [0x79, 0x301]), (0xFF, [0x79, 0x308]), (0x340, [0x300]), (0x341, [0x301]),
     (0x343, [0x313]), (0x344, [0x308, 0x301])]"

definition decompose :: "nat \<Rightarrow> nat list" where
  "decompose c = (case map_of decomposition c of Some d \<Rightarrow> d | None \<Rightarrow> [c])"

definition lower_cp :: "nat \<Rightarrow> nat" where
  "lower_cp c =
     (if (0x41 \<le> c \<and> c \<le> 0x5A) \<or> (0xC0 \<le> c \<and> c \<le> 0xDE \<and> c \<noteq> 0xD7) then c + 32 else c)"

definition isupper_cp :: "nat \<Rightarrow> bool" where
  "isupper_cp c =
     ((0x41 \<le> c \<and> c \<le> 0x5A) \<or> (0xC0 \<le> c \<and> c \<le> 0xDE \<and> c \<noteq> 0xD7) \<or> c = 0x3D2)"

definition isalnum_cp :: "nat \<Rightarrow> bool" where
  "isalnum_cp c =
     ((0x30 \<le> c \<and> c \<le> 0x39) \<or> (0x41 \<le> c \<and> c \<le> 0x5A) \<or> (0x61 \<le> c \<and> c \<le> 0x7A) \<or>
      c \<in> {0xAA, 0xB2, 0xB3, 0xB5, 0xB9, 0xBA, 0xBC, 0xBD, 0xBE} \<or>
      (0xC0 \<le> c \<and> c \<le> 0xFF \<and> c \<noteq> 0xD7 \<and> c \<noteq> 0xF7) \<or> c = 0x3D2)"

definition isspace_cp :: "nat \<Rightarrow> bool" where
  "isspace_cp c = ((0x09 \<le> c \<and> c \<le> 0x0D) \<or> (0x1C \<le> c \<and> c \<le> 0x20) \<or> c = 0x85 \<or> c = 0xA0)"

definition is_Mn_cp :: "nat \<Rightarrow> bool" where
  "is_Mn_cp c = (0x300 \<le> c \<and> c \<le> 0x36F)"

definition latin_ucd :: ucd where
  "latin_ucd =
     \<lparr>nfd = (\<lambda>s. concat (map decompose s)), is_Mn = is_Mn_cp, isspace = isspace_cp,
      lower = map lower_cp, isalnum = isalnum_cp\<rparr>"

text \<open>The code points of an ASCII text.\<close>

definition ascii :: "string \<Rightarrow> ustr" where
  "ascii s = map of_char s"

section \<open>The tasks of the DAG\<close>

subsection \<open>State\<close>

text \<open>
  A dataframe read with \<^verbatim>\<open>dtype=str\<close>: column labels and rows of text cells, an empty
  cell being absent. The source file is missing, or \<^verbatim>\<open>pd.read_csv\<close> raises on it, or it
  reads as a table. The world a run acts on: the source file, the snapshot files by path, the
  paths that can be written, and the two tables.
\<close>

record dataframe =
  columns :: "ustr list"
  df_rows :: "sql_text list list"

datatype source_file = Missing | Unreadable | Table dataframe

record world =
  csv_file :: source_file
  files :: "string \<Rightarrow> dataframe option"
  writable :: "string \<Rightarrow> bool"
  raw_earthquakes :: "raw_row list"
  analytics_earthquakes :: "analytics_row list"

text \<open>
  XCom: values pushed under a task id and a key. The context of a run. (A local variable
  \<^verbatim>\<open>batch_id\<close> of a task is written \<open>bid\<close>, the name being that of a column.)
\<close>

datatype xcom_value = XStr string | XInt nat

type_synonym xcom = "string \<times> string \<Rightarrow> xcom_value option"

record run_context =
  ts_nodash :: string
  now :: nat

datatype py_error =
    FileNotFoundError
  | ReadCsvError
  | DuplicateColumnNames
  | OSError
  | TypeError
  | ValueError "xcom_value option" nat
  | DatabaseError sql_error

type_synonym task = "world \<times> xcom \<Rightarrow> py_error + world \<times> xcom"

definition RAW_DATA_PATH :: string where
  "RAW_DATA_PATH = ''/opt/airflow/data/raw''"

text \<open>
  \<^verbatim>\<open>str(v)\<close> of a pulled value, as an f-string and a Jinja template render it: a missing
  value is the text \<^verbatim>\<open>None\<close>.
\<close>

fun digits_of :: "nat \<Rightarrow> nat \<Rightarrow> string" where
  "digits_of 0 n = []"
| "digits_of (Suc k) n =
     (if n < 10 then [''0123456789'' ! n] else digits_of k (n div 10) @ [''0123456789'' ! (n mod 10)])"

definition render :: "xcom_value option \<Rightarrow> string" where
  "render v =
     (case v of
        None \<Rightarrow> ''None''
      | Some (XStr s) \<Rightarrow> s
      | Some (XInt n) \<Rightarrow> digits_of (Suc n) n)"

subsection \<open>\<^verbatim>\<open>extract_earthquake_data\<close>\<close>

text \<open>
  Every exception raised inside the function is logged and raised again. The source file
  may be missing (\<^verbatim>\<open>FileNotFoundError\<close>) or \<^verbatim>\<open>pd.read_csv\<close> may raise on it. The
  directory of the snapshots is the directory of the source file, so
  \<^verbatim>\<open>os.makedirs(..., exist_ok=True)\<close> finds it. \<^verbatim>\<open>df.to_parquet(raw_file)\<close> raises
  when two column labels are equal, which normalization can bring about, and when the file
  cannot be written; otherwise it creates or replaces the file. The function does not look
  whether the snapshot file exists.
\<close>

definition raw_file_of :: "string \<Rightarrow> string" where
  "raw_file_of bid = RAW_DATA_PATH @ ''/earthquakes_raw_'' @ bid @ ''.parquet''"

definition extract_earthquake_data :: "ucd \<Rightarrow> run_context \<Rightarrow> task" where
  "extract_earthquake_data U ctx s =
     (case s of (w, x) \<Rightarrow>
       (case csv_file w of
          Missing \<Rightarrow> Inl FileNotFoundError
        | Unreadable \<Rightarrow> Inl ReadCsvError
        | Table df0 \<Rightarrow>
            let df = df0\<lparr>columns := map (normalize_column_name U) (columns df0)\<rparr>;
                bid = ts_nodash ctx;
                raw_file = raw_file_of bid
            in if \<not> distinct (columns df) then Inl DuplicateColumnNames
               else if \<not> writable w raw_file then Inl OSError
               else Inr (w\<lparr>files := (files w)(raw_file \<mapsto> df)\<rparr>,
                         x((''extract_data'', ''batch_id'') \<mapsto> XStr bid,
                           (''extract_data'', ''raw_file'') \<mapsto> XStr raw_file,
                           (''extract_data'', ''record_count'') \<mapsto> XInt (length (df_rows df))))))"

subsection \<open>\<^verbatim>\<open>load_raw_data\<close>\<close>

definition rename_column :: "ustr \<Rightarrow> ustr" where
  "rename_column c =
     (if c = ascii ''referencia_de_localizacion'' then ascii ''referencia_localizacion'' else c)"

definition cell :: "ustr list \<Rightarrow> sql_text list \<Rightarrow> string \<Rightarrow> sql_text" where
  "cell cols vals name = (case map_of (zip cols vals) (ascii name) of None \<Rightarrow> None | Some v \<Rightarrow> v)"

text \<open>
  One dataframe row as a row of \<^verbatim>\<open>raw_earthquakes\<close>, stamped with the batch and the time of
  the load.
\<close>

definition to_raw_row :: "ustr list \<Rightarrow> xcom_value option \<Rightarrow> nat \<Rightarrow> sql_text list \<Rightarrow> raw_row" where
  "to_raw_row cols bid t vals =
     \<lparr>raw_batch_id = map_option (\<lambda>v. render (Some v)) bid,
      loaded_at = t,
      fecha_utc = cell cols vals ''fecha_utc'',
      hora_utc = cell cols vals ''hora_utc'',
      magnitud = cell cols vals ''magnitud'',
      latitud = cell cols vals ''latitud'',
      longitud = cell cols vals ''longitud'',
      profundidad = cell cols vals ''profundidad'',
      referencia_localizacion = cell cols vals ''referencia_localizacion'',
      estatus = cell cols vals ''estatus''\<rparr>"

definition load_raw_data :: "run_context \<Rightarrow> task" where
  "load_raw_data ctx s =
     (case s of (w, x) \<Rightarrow>
       let bid = x (''extract_data'', ''batch_id'');
           raw_file = x (''extract_data'', ''raw_file'')
       in (case raw_file of
             Some (XStr path) \<Rightarrow>
               (case files w path of
                  None \<Rightarrow> Inl FileNotFoundError
                | Some df \<Rightarrow>
                    let cols = map rename_column (columns df);
                        new = map (to_raw_row cols bid (now ctx)) (df_rows df)
                    in Inr (w\<lparr>raw_earthquakes := raw_earthquakes w @ new\<rparr>,
                            x((''load_raw_data'', ''loaded_records'') \<mapsto> XInt (length (df_rows df)))))
           | _ \<Rightarrow> Inl TypeError))"

subsection \<open>\<^verbatim>\<open>validate_raw_data\<close>\<close>

text \<open>\<^verbatim>\<open>SELECT COUNT(*) FROM raw_earthquakes WHERE batch_id = '...'\<close>\<close>

definition loaded_count_of :: "string \<Rightarrow> raw_row list \<Rightarrow> nat" where
  "loaded_count_of b raw = length (batch_rows b raw)"

definition validate_raw_data :: task where
  "validate_raw_data s =
     (case s of (w, x) \<Rightarrow>
       let bid = x (''extract_data'', ''batch_id'');
           loaded_count = loaded_count_of (render bid) (raw_earthquakes w);
           expected_count = x (''extract_data'', ''record_count'')
       in if Some (XInt loaded_count) \<noteq> expected_count
          then Inl (ValueError expected_count loaded_count)
          else Inr (w, x))"

subsection \<open>\<^verbatim>\<open>transform_to_analytics\<close>\<close>

text \<open>The operator renders the template of the statement and executes it.\<close>

definition transform_to_analytics :: "engine \<Rightarrow> task" where
  "transform_to_analytics E s =
     (case s of (w, x) \<Rightarrow>
       (case TRANSFORM_SQL E (render (x (''extract_data'', ''batch_id'')))
               (raw_earthquakes w) (analytics_earthquakes w) of
          Inl e \<Rightarrow> Inl (DatabaseError e)
        | Inr a \<Rightarrow> Inr (w\<lparr>analytics_earthquakes := a\<rparr>, x)))"

subsection \<open>The chain\<close>

text \<open>
  \<^verbatim>\<open>extract_task >> load_task >> validate_task >> transform_group >> export_task\<close>, the
  group being \<^verbatim>\<open>transform_task >> aggregate_task\<close>. With the default trigger rule a task
  runs only when the task before it has succeeded; a task that raises is tried again up to
  \<^verbatim>\<open>retries\<close> times, and when it still fails every task after it is marked
  \<^verbatim>\<open>upstream_failed\<close> and does not run. A task of the model either fails and leaves the
  state as it was, or succeeds.

  \<^verbatim>\<open>calculate_statistics\<close> and \<^verbatim>\<open>export_to_parquet\<close> only read
  \<^verbatim>\<open>analytics_earthquakes\<close>; what they write (a statistics row, the export file) is
  outside the state modelled here, on which they act as the identity.
\<close>

datatype task_state = success | failed py_error | upstream_failed

definition retries :: nat where
  "retries = 3"

fun run_with_retries :: "nat \<Rightarrow> task \<Rightarrow> task" where
  "run_with_retries 0 t s = t s"
| "run_with_retries (Suc n) t s = (case t s of Inr s' \<Rightarrow> Inr s' | Inl e \<Rightarrow> run_with_retries n t s)"

fun run_chain :: "(string \<times> task) list \<Rightarrow> world \<times> xcom \<Rightarrow> (world \<times> xcom) \<times> (string \<times> task_state) list" where
  "run_chain [] s = (s, [])"
| "run_chain ((name, t) # ts) s =
     (case run_with_retries retries t s of
        Inl e \<Rightarrow> (s, (name, failed e) # map (\<lambda>(n, _). (n, upstream_failed)) ts)
      | Inr s' \<Rightarrow> (case run_chain ts s' of (s'', states) \<Rightarrow> (s'', (name, success) # states)))"

definition calculate_statistics :: task where
  "calculate_statistics s = Inr s"

definition export_analytics_to_parquet :: task where
  "export_analytics_to_parquet s = Inr s"

definition after_load :: "engine \<Rightarrow> (string \<times> task) list" where
  "after_load E =
     [(''validate_raw_data'', validate_raw_data),
      (''transform_data.transform_to_analytics'', transform_to_analytics E),
      (''transform_data.calculate_statistics'', calculate_statistics),
      (''export_to_parquet'', export_analytics_to_parquet)]"

definition dag :: "ucd \<Rightarrow> engine \<Rightarrow> run_context \<Rightarrow> (string \<times> task) list" where
  "dag U E ctx =
     (''extract_data'', extract_earthquake_data U ctx) #
     (''load_raw_data'', load_raw_data ctx) # after_load E"

text \<open>A DAG run starts with no XCom values.\<close>

definition run_dag :: "ucd \<Rightarrow> engine \<Rightarrow> run_context \<Rightarrow> world \<Rightarrow> (world \<times> xcom) \<times> (string \<times> task_state) list" where
  "run_dag U E ctx w = run_chain (dag U E ctx) (w, Map.empty)"

subsection \<open>An example source file\<close>

definition csv_example :: dataframe where
  "csv_example =
     \<lparr>columns = [ascii ''Magnitud'', ascii ''Latitud'', ascii ''Longitud'', ascii ''Profundidad''],
      df_rows = [[Some ''5.2'', Some ''18.1'', Some ''-99.2'', Some ''10'']]\<rparr>"


definition ctx_example :: run_context where
  "ctx_example = \<lparr>ts_nodash = ''20240101T000000'', now = 0\<rparr>"

definition world_example :: world where
  "world_example =
     \<lparr>csv_file = Table csv_example, files = Map.empty, writable = (\<lambda>p. True),
      raw_earthquakes = [], analytics_earthquakes = []\<rparr>"

text \<open>The snapshot of the example file, and the states of a run on it.\<close>

definition snapshot_example :: dataframe where
  "snapshot_example =
     \<lparr>columns = [ascii ''magnitud'', ascii ''latitud'', ascii ''longitud'', ascii ''profundidad''],
      df_rows = [[Some ''5.2'', Some ''18.1'', Some ''-99.2'', Some ''10'']]\<rparr>"


definition xcom_extracted :: xcom where
  "xcom_extracted =
     [(''extract_data'', ''batch_id'') \<mapsto> XStr ''20240101T000000'',
      (''extract_data'', ''raw_file'') \<mapsto> XStr (raw_file_of ''20240101T000000''),
      (''extract_data'', ''record_count'') \<mapsto> XInt 1]"

definition world_extracted :: world where
  "world_extracted =
     world_example\<lparr>files := [raw_file_of ''20240101T000000'' \<mapsto> snapshot_example]\<rparr>"

definition row_loaded :: raw_row where
  "row_loaded =
     \<lparr>raw_batch_id = Some ''20240101T000000'', loaded_at = 0,
      fecha_utc = None, hora_utc = None,
      magnitud = Some ''5.2'', latitud = Some ''18.1'', longitud = Some ''-99.2'',
      profundidad = Some ''10'', referencia_localizacion = None, estatus = None\<rparr>"

definition xcom_loaded :: xcom where
  "xcom_loaded = xcom_extracted((''load_raw_data'', ''loaded_records'') \<mapsto> XInt 1)"

definition world_loaded :: world where
  "world_loaded = world_extracted\<lparr>raw_earthquakes := [row_loaded]\<rparr>"

definition analytics_loaded :: analytics_row where
  "analytics_loaded =
     \<lparr>earthquake_date = None, earthquake_datetime = None,
      magnitude = Some 5.2, latitude = Some 18.1, longitude = Some (- 99.2), depth_km = Some 10,
      location_reference = None, status = None,
      year = None, month = None, day_of_week = None, hour_of_day = None,
      magnitude_category = ''Strong'', depth_category = ''Shallow'', region = ''Other'',
      is_significant = Some True, batch_id = Some ''20240101T000000''\<rparr>"

definition world_transformed :: world where
  "world_transformed = world_loaded\<lparr>analytics_earthquakes := [analytics_loaded]\<rparr>"

text \<open>
  The validation example of the specification: 100 rows were extracted, 99 rows of the batch
  are in the raw table.
\<close>

definition xcom_100 :: xcom where
  "xcom_100 =
     [(''extract_data'', ''batch_id'') \<mapsto> XStr ''20240101T000000'',
      (''extract_data'', ''record_count'') \<mapsto> XInt 100]"

definition world_99 :: world where
  "world_99 = world_example\<lparr>raw_earthquakes := replicate 99 row_good\<rparr>"

text \<open>A world in which the raw table already holds a row of the batch about to be run.\<close>

definition world_rerun :: world where
  "world_rerun = world_example\<lparr>raw_earthquakes := [row_good]\<rparr>"


section \<open>Evaluation rules and auxiliary facts\<close>

lemmas cast_eval =
  magnitude_of_def latitude_of_def longitude_of_def depth_km_of_def guarded_cast_def TRIM_def
  CAST_NUMERIC_def matches_signed_def matches_unsigned_def is_digit_def digits_val_def
  digit_val_def rescale_def units_of_def is_negative_def Let_def

lemma not_digit_point: "\<not> is_digit CHR ''.''"
  by (simp add: is_digit_def)

text \<open>The language of the unsigned pattern: digits, then optionally a point, then digits.\<close>

lemma matches_unsigned_iff:
  "matches_unsigned s =
     (\<exists>ds fs. ds \<noteq> [] \<and> list_all is_digit ds \<and> list_all is_digit fs \<and>
        (s = ds @ fs \<or> s = ds @ ''.'' @ fs))"
proof
  assume m: "matches_unsigned s"
  let ?ds = "takeWhile is_digit s"
  have ds: "?ds \<noteq> []" "list_all is_digit ?ds"
    using m by (auto simp: matches_unsigned_def list_all_iff dest: set_takeWhileD)
  show "\<exists>ds fs. ds \<noteq> [] \<and> list_all is_digit ds \<and> list_all is_digit fs \<and>
        (s = ds @ fs \<or> s = ds @ ''.'' @ fs)"
  proof (cases "dropWhile is_digit s")
    case Nil
    then have "s = ?ds @ []" by (metis takeWhile_dropWhile_id)
    moreover have "list_all is_digit []" by simp
    ultimately show ?thesis using ds by blast
  next
    case (Cons c r)
    with m have c: "c = CHR ''.''" and r: "list_all is_digit r"
      by (auto simp: matches_unsigned_def)
    have "s = ?ds @ ''.'' @ r"
      using Cons c by (metis append_Cons append_Nil takeWhile_dropWhile_id)
    with ds r show ?thesis by blast
  qed
next
  assume "\<exists>ds fs. ds \<noteq> [] \<and> list_all is_digit ds \<and> list_all is_digit fs \<and>
        (s = ds @ fs \<or> s = ds @ ''.'' @ fs)"
  then obtain ds fs where ds: "ds \<noteq> []" "list_all is_digit ds" and fs: "list_all is_digit fs"
    and s: "s = ds @ fs \<or> s = ds @ ''.'' @ fs" by blast
  from s show "matches_unsigned s"
  proof
    assume e: "s = ds @ fs"
    then have "list_all is_digit s" using ds fs by simp
    then have tw: "takeWhile is_digit s = s" and dw: "dropWhile is_digit s = []"
      by (simp_all add: list_all_iff)
    have "s \<noteq> []" using e ds by simp
    then show ?thesis unfolding matches_unsigned_def tw dw by simp
  next
    assume e: "s = ds @ ''.'' @ fs"
    have tw: "takeWhile is_digit s = ds" and dw: "dropWhile is_digit s = CHR ''.'' # fs"
      using e ds not_digit_point by (simp_all add: list_all_iff takeWhile_append2)
    show ?thesis unfolding matches_unsigned_def tw dw using ds fs by simp
  qed
qed

lemma matches_signed_iff:
  "matches_signed s = (matches_unsigned s \<or> (\<exists>r. s = CHR ''-'' # r \<and> matches_unsigned r))"
  by (cases s) (auto simp: matches_signed_def matches_unsigned_def is_digit_def)

lemma unsigned_imp_signed: "matches_unsigned t \<Longrightarrow> matches_signed t"
  by (simp add: matches_signed_iff)

lemma guarded_cast_Some_iff:
  "(\<exists>v. guarded_cast re p s x = Inr (Some v)) =
     (\<exists>t. x = Some t \<and> re (TRIM t) \<and> matches_signed (TRIM t) \<and> fits p s (TRIM t))"
  by (auto simp: guarded_cast_def CAST_NUMERIC_def fits_def split: option.splits sum.splits if_splits)

lemma guarded_cast_None_iff:
  "(guarded_cast re p s x = Inr None) = (x = None \<or> (\<exists>t. x = Some t \<and> \<not> re (TRIM t)))"
  by (auto simp: guarded_cast_def split: option.splits sum.splits if_splits)

lemma guarded_cast_scale:
  "guarded_cast re p s x = Inr (Some v) \<Longrightarrow> \<exists>k::int. v = of_int k / 10 ^ s"
proof -
  assume a: "guarded_cast re p s x = Inr (Some v)"
  then obtain t where c: "CAST_NUMERIC p s t = Inr v"
    by (auto simp: guarded_cast_def split: option.splits sum.splits if_splits)
  then have "v = (if is_negative t then - 1 else 1) * of_nat (units_of s t) / 10 ^ s"
    by (auto simp: CAST_NUMERIC_def split: if_splits)
  then have "v = of_int ((if is_negative t then - 1 else 1) * int (units_of s t)) / 10 ^ s"
    by simp
  then show ?thesis by blast
qed

lemma magnitude_category_Some:
  "magnitude_category_of (Some m) =
     (if m < 3 then ''Minor'' else if m < 4 then ''Light'' else if m < 5 then ''Moderate''
      else if m < 6 then ''Strong'' else if m < 7 then ''Major'' else ''Great'')"
  by (simp add: magnitude_category_of_def sql_lt_def sql_ge_def is_true_def)

lemma depth_category_Some:
  "depth_category_of (Some d) =
     (if d < 70 then ''Shallow'' else if d < 300 then ''Intermediate'' else ''Deep'')"
  by (simp add: depth_category_of_def sql_lt_def sql_ge_def is_true_def)

lemma category_None:
  "magnitude_category_of None = ''Unknown''" "depth_category_of None = ''Unknown''"
  by (simp_all add: magnitude_category_of_def depth_category_of_def sql_lt_def sql_ge_def is_true_def)

lemma is_significant_Some:
  "is_significant_of (Some m) (Some d) = Some (5 \<le> m \<or> d < 50)"
  by (cases "5 \<le> m"; cases "d < 50"; simp add: is_significant_of_def sql_lt_def sql_ge_def)

lemma is_significant_no_depth:
  "is_significant_of (Some m) None = (if 5 \<le> m then Some True else None)"
  by (simp add: is_significant_of_def sql_lt_def sql_ge_def)

section \<open>Facts about the transform statement\<close>

lemma all_rows_Inr_iff:
  "(all_rows f xs = Inr ys) = list_all2 (\<lambda>x y. f x = Inr y) xs ys"
proof (induction xs arbitrary: ys)
  case Nil
  then show ?case by auto
next
  case (Cons x xs)
  show ?case
  proof (cases ys)
    case Nil
    then show ?thesis by (auto split: sum.splits)
  next
    case (Cons y ys')
    then show ?thesis using Cons.IH [of ys'] by (auto split: sum.splits)
  qed
qed

lemma all_rows_Inl:
  "x \<in> set xs \<Longrightarrow> f x = Inl e \<Longrightarrow> \<exists>e'. all_rows f xs = Inl e'"
  by (induction xs) (auto split: sum.splits)

lemma all_rows_total:
  "(\<And>x. x \<in> set xs \<Longrightarrow> \<exists>y. f x = Inr y) \<Longrightarrow> \<exists>ys. all_rows f xs = Inr ys"
proof (induction xs)
  case Nil
  then show ?case by simp
next
  case (Cons x xs)
  then obtain y where "f x = Inr y" by fastforce
  moreover obtain ys where "all_rows f xs = Inr ys" using Cons by fastforce
  ultimately show ?case by simp
qed

lemma transform_append:
  "(TRANSFORM_SQL E b raw A = Inr A') = (\<exists>rows. inserted_rows E b raw = Inr rows \<and> A' = A @ rows)"
  by (auto simp: TRANSFORM_SQL_def split: sum.splits)

lemma transform_error:
  "(TRANSFORM_SQL E b raw A = Inl e) = (parsed_data E b raw = Inl e)"
  by (auto simp: TRANSFORM_SQL_def inserted_rows_def split: sum.splits)

lemma gate_select:
  "gate p \<Longrightarrow> magnitude (select_row E p) \<noteq> None \<and> latitude (select_row E p) \<noteq> None \<and>
     longitude (select_row E p) \<noteq> None"
  by (simp add: gate_def select_row_def IS_NOT_NULL_def)

lemma parse_row_gate:
  "parse_row E r = Inr p \<Longrightarrow>
     gate p = ((\<exists>v. magnitude_of (magnitud r) = Inr (Some v)) \<and>
               (\<exists>v. latitude_of (latitud r) = Inr (Some v)) \<and>
               (\<exists>v. longitude_of (longitud r) = Inr (Some v)))"
  by (auto simp: parse_row_def gate_def IS_NOT_NULL_def split: sum.splits)

text \<open>Evaluation on the example rows.\<close>

lemmas engine_eval = ref_engine_def ref_to_date_def ref_to_timestamp_def ref_to_char_day_def
  day_of_week_index_def days_in_month_def leap_year_def strict_def concat_ws_space_def

lemmas feature_eval = region_of_def ILIKE_contains_def LOWER_def lower_char_def is_true_def
  magnitude_category_Some depth_category_Some category_None is_significant_Some
  is_significant_no_depth

lemma parse_good: "parse_row ref_engine row_good = Inr parsed_good"
  by (simp add: parse_row_def row_good_def parsed_good_def engine_eval cast_eval LOWER_def
      lower_char_def)

lemma select_good: "select_row ref_engine parsed_good = analytics_good"
  by (simp add: select_row_def analytics_good_def parsed_good_def engine_eval feature_eval)

lemma gate_good: "gate parsed_good"
  by (simp add: gate_def IS_NOT_NULL_def parsed_good_def)

lemma parse_not_computable:
  "parse_row ref_engine row_not_computable = Inr (parsed_good\<lparr>p_magnitude := None\<rparr>)"
  by (simp add: parse_row_def row_not_computable_def row_good_def parsed_good_def engine_eval
      cast_eval LOWER_def lower_char_def)

lemma parse_bad_latitude:
  "parse_row ref_engine row_bad_latitude =
     Inr (parsed_good\<lparr>p_magnitude := Some 2.1, p_latitude := None, p_longitude := Some (- 100),
                      p_depth_km := Some 5\<rparr>)"
  by (simp add: parse_row_def row_bad_latitude_def row_good_def parsed_good_def engine_eval
      cast_eval LOWER_def lower_char_def)

lemma gate_examples:
  "\<not> gate (parsed_good\<lparr>p_magnitude := None\<rparr>)"
  "\<not> gate (parsed_good\<lparr>p_magnitude := Some 2.1, p_latitude := None, p_longitude := Some (- 100),
                      p_depth_km := Some 5\<rparr>)"
  by (simp_all add: gate_def IS_NOT_NULL_def)

lemma example_batch_ids:
  "raw_batch_id row_good = Some ''20240101T000000''"
  "raw_batch_id row_bad_date = Some ''20240101T000000''"
  "raw_batch_id row_overflow = Some ''20240101T000000''"
  "raw_batch_id row_not_computable = Some ''20240101T000000''"
  "raw_batch_id row_bad_latitude = Some ''20240101T000000''"
  by (simp_all add: row_good_def row_bad_date_def row_overflow_def row_not_computable_def
      row_bad_latitude_def)

lemmas transform_eval = TRANSFORM_SQL_def inserted_rows_def parsed_data_def batch_rows_def
  example_batch_ids

lemma parse_bad_date: "parse_row ref_engine row_bad_date = Inl InvalidDatetimeFormat"
  by (simp add: parse_row_def row_bad_date_def row_good_def engine_eval cast_eval)

lemma parse_overflow: "parse_row ref_engine row_overflow = Inl NumericValueOutOfRange"
  by (simp add: parse_row_def row_overflow_def row_good_def engine_eval cast_eval)

section \<open>Facts about the tasks\<close>

lemma run_with_retries_eq: "run_with_retries n t s = t s"
  by (induction n) (auto split: sum.splits)

lemma extract_result:
  "extract_earthquake_data U ctx (w, x) =
     (case csv_file w of
        Missing \<Rightarrow> Inl FileNotFoundError
      | Unreadable \<Rightarrow> Inl ReadCsvError
      | Table df \<Rightarrow>
          if \<not> distinct (map (normalize_column_name U) (columns df)) then Inl DuplicateColumnNames
          else if \<not> writable w (raw_file_of (ts_nodash ctx)) then Inl OSError
          else
            Inr (w\<lparr>files := (files w)(raw_file_of (ts_nodash ctx) \<mapsto>
                       df\<lparr>columns := map (normalize_column_name U) (columns df)\<rparr>)\<rparr>,
                 x((''extract_data'', ''batch_id'') \<mapsto> XStr (ts_nodash ctx),
                   (''extract_data'', ''raw_file'') \<mapsto> XStr (raw_file_of (ts_nodash ctx)),
                   (''extract_data'', ''record_count'') \<mapsto> XInt (length (df_rows df)))))"
  by (simp add: extract_earthquake_data_def Let_def split: source_file.splits)

lemma extract_success:
  assumes "extract_earthquake_data U ctx (w, x) = Inr (w', x')"
  shows "\<exists>df. csv_file w = Table df \<and>
           w' = w\<lparr>files := (files w)(raw_file_of (ts_nodash ctx) \<mapsto>
                       df\<lparr>columns := map (normalize_column_name U) (columns df)\<rparr>)\<rparr> \<and>
           x' = x((''extract_data'', ''batch_id'') \<mapsto> XStr (ts_nodash ctx),
                   (''extract_data'', ''raw_file'') \<mapsto> XStr (raw_file_of (ts_nodash ctx)),
                   (''extract_data'', ''record_count'') \<mapsto> XInt (length (df_rows df)))"
  using assms by (auto simp: extract_result split: source_file.splits if_splits)

lemma render_XStr: "render (Some (XStr b)) = b"
  by (simp add: render_def)

lemma load_result:
  assumes "load_raw_data ctx (w, x) = Inr (w', x')"
  shows "\<exists>path df. x (''extract_data'', ''raw_file'') = Some (XStr path) \<and> files w path = Some df \<and>
           w' = w\<lparr>raw_earthquakes := raw_earthquakes w @
                   map (to_raw_row (map rename_column (columns df)) (x (''extract_data'', ''batch_id'')) (now ctx))
                     (df_rows df)\<rparr> \<and>
           x' = x((''load_raw_data'', ''loaded_records'') \<mapsto> XInt (length (df_rows df)))"
  using assms
  by (auto simp: load_raw_data_def Let_def split: option.splits xcom_value.splits)

lemma validate_result:
  "validate_raw_data (w, x) =
     (if x (''extract_data'', ''record_count'') =
           Some (XInt (loaded_count_of (render (x (''extract_data'', ''batch_id''))) (raw_earthquakes w)))
      then Inr (w, x)
      else Inl (ValueError (x (''extract_data'', ''record_count''))
                  (loaded_count_of (render (x (''extract_data'', ''batch_id''))) (raw_earthquakes w))))"
  by (auto simp: validate_raw_data_def Let_def)

lemma parsed_batch_ids:
  "list_all2 (\<lambda>r p. parse_row E r = Inr p) rs ps \<Longrightarrow> list_all (\<lambda>r. raw_batch_id r = Some b) rs \<Longrightarrow>
     list_all (\<lambda>p. p_batch_id p = Some b) ps"
proof (induction rule: list_all2_induct)
  case Nil
  then show ?case by simp
next
  case (Cons r rs p ps)
  then have "p_batch_id p = raw_batch_id r"
    by (auto simp: parse_row_def split: sum.splits)
  with Cons show ?case by simp
qed

lemma inserted_batch_ids:
  assumes "inserted_rows E b raw = Inr rows"
  shows "list_all (\<lambda>a. batch_id a = Some b) rows"
proof -
  from assms obtain ps where ps: "all_rows (parse_row E) (batch_rows b raw) = Inr ps"
    and r: "rows = map (select_row E) (filter gate ps)"
    by (auto simp: inserted_rows_def parsed_data_def split: sum.splits)
  have "list_all (\<lambda>r. raw_batch_id r = Some b) (batch_rows b raw)"
    by (simp add: batch_rows_def list_all_iff)
  moreover have "list_all2 (\<lambda>r p. parse_row E r = Inr p) (batch_rows b raw) ps"
    using ps by (simp add: all_rows_Inr_iff)
  ultimately have "list_all (\<lambda>p. p_batch_id p = Some b) ps"
    using parsed_batch_ids by blast
  then show ?thesis unfolding r by (simp add: list_all_iff select_row_def)
qed

lemma transform_task_result:
  assumes "transform_to_analytics E (w, x) = Inr (w', x')"
  shows "x' = x \<and> (\<exists>rows. inserted_rows E (render (x (''extract_data'', ''batch_id''))) (raw_earthquakes w) = Inr rows \<and>
           w' = w\<lparr>analytics_earthquakes := analytics_earthquakes w @ rows\<rparr>)"
  using assms
  by (auto simp: transform_to_analytics_def TRANSFORM_SQL_def split: sum.splits)

lemma run_after_load_failed:
  assumes "validate_raw_data s = Inl e"
  shows "run_chain (after_load E) s =
     (s, [(''validate_raw_data'', failed e),
          (''transform_data.transform_to_analytics'', upstream_failed),
          (''transform_data.calculate_statistics'', upstream_failed),
          (''export_to_parquet'', upstream_failed)])"
  using assms by (simp add: after_load_def run_with_retries_eq)

text \<open>Evaluation of a run on the example file.\<close>

lemmas ucd_eval = normalize_column_name_def strip_def replace_space_def latin_ucd_def decompose_def
  decomposition_def lower_cp_def isalnum_cp_def isspace_cp_def is_Mn_cp_def isupper_cp_def
  ascii_def Let_def

lemma ascii_eq_iff: "(ascii a = ascii b) = (a = b)"
  by (simp add: ascii_def inj_map_eq_map inj_on_def)

lemma normalize_example_columns:
  "map (normalize_column_name latin_ucd) (columns csv_example) = columns snapshot_example"
  by (simp add: csv_example_def snapshot_example_def) (simp add: ucd_eval)

lemma extract_example:
  "extract_earthquake_data latin_ucd ctx_example (world_example\<lparr>raw_earthquakes := r\<rparr>, Map.empty) =
     Inr (world_extracted\<lparr>raw_earthquakes := r\<rparr>, xcom_extracted)"
proof -
  have "csv_example\<lparr>columns := columns snapshot_example\<rparr> = snapshot_example"
    by (simp add: csv_example_def snapshot_example_def)
  moreover have "length (df_rows csv_example) = 1"
    by (simp add: csv_example_def)
  moreover have "distinct (columns snapshot_example)"
    by (simp add: snapshot_example_def ascii_eq_iff)
  ultimately show ?thesis
    by (simp add: extract_result world_example_def ctx_example_def world_extracted_def
        xcom_extracted_def normalize_example_columns)
qed

lemma to_raw_row_example:
  "to_raw_row (map rename_column (columns snapshot_example)) (Some (XStr ''20240101T000000'')) 0
     [Some ''5.2'', Some ''18.1'', Some ''-99.2'', Some ''10''] = row_loaded"
  by (simp add: to_raw_row_def snapshot_example_def rename_column_def cell_def row_loaded_def
      render_def ascii_eq_iff)

lemma load_example:
  "load_raw_data ctx_example (world_extracted\<lparr>raw_earthquakes := r\<rparr>, xcom_extracted) =
     Inr (world_extracted\<lparr>raw_earthquakes := r @ [row_loaded]\<rparr>,
          xcom_loaded)"
proof -
  have x: "xcom_extracted (''extract_data'', ''raw_file'') = Some (XStr (raw_file_of ''20240101T000000''))"
    "xcom_extracted (''extract_data'', ''batch_id'') = Some (XStr ''20240101T000000'')"
    by (simp_all add: xcom_extracted_def)
  have f: "files world_extracted (raw_file_of ''20240101T000000'') = Some snapshot_example"
    by (simp add: world_extracted_def)
  have d: "df_rows snapshot_example = [[Some ''5.2'', Some ''18.1'', Some ''-99.2'', Some ''10'']]"
    by (simp add: snapshot_example_def)
  show ?thesis
    unfolding load_raw_data_def
    by (simp add: x f d Let_def to_raw_row_example ctx_example_def xcom_loaded_def)
qed

lemma xcom_loaded_values:
  "xcom_loaded (''extract_data'', ''batch_id'') = Some (XStr ''20240101T000000'')"
  "xcom_loaded (''extract_data'', ''record_count'') = Some (XInt 1)"
  by (simp_all add: xcom_loaded_def xcom_extracted_def)

lemma run_dag_rerun:
  "run_dag latin_ucd ref_engine ctx_example world_rerun =
     ((world_extracted\<lparr>raw_earthquakes := [row_good, row_loaded]\<rparr>, xcom_loaded),
      [(''extract_data'', success), (''load_raw_data'', success),
       (''validate_raw_data'', failed (ValueError (Some (XInt 1)) 2)),
       (''transform_data.transform_to_analytics'', upstream_failed),
       (''transform_data.calculate_statistics'', upstream_failed),
       (''export_to_parquet'', upstream_failed)])"
proof -
  have v: "validate_raw_data (world_extracted\<lparr>raw_earthquakes := [row_good, row_loaded]\<rparr>, xcom_loaded) =
      Inl (ValueError (Some (XInt 1)) 2)"
    by (simp add: validate_result xcom_loaded_values render_def loaded_count_of_def batch_rows_def
        example_batch_ids row_loaded_def)
  show ?thesis
    using extract_example [of "[row_good]"] load_example [of "[row_good]"]
    by (simp add: run_dag_def dag_def world_rerun_def run_with_retries_eq
        run_after_load_failed [OF v])
qed

lemma inserted_loaded:
  "inserted_rows ref_engine ''20240101T000000'' [row_loaded] = Inr [analytics_loaded]"
  by (simp add: inserted_rows_def parsed_data_def batch_rows_def parse_row_def row_loaded_def
      analytics_loaded_def select_row_def gate_def IS_NOT_NULL_def engine_eval cast_eval feature_eval)

lemma world_states:
  "world_example\<lparr>raw_earthquakes := []\<rparr> = world_example"
  "world_extracted\<lparr>raw_earthquakes := []\<rparr> = world_extracted"
  "world_extracted\<lparr>raw_earthquakes := [row_loaded]\<rparr> = world_loaded"
  "raw_earthquakes world_loaded = [row_loaded]"
  "raw_earthquakes world_extracted = []"
  "analytics_earthquakes world_loaded = []"
  "analytics_earthquakes world_transformed = [analytics_loaded]"
  "world_loaded\<lparr>analytics_earthquakes := [analytics_loaded]\<rparr> = world_transformed"
  by (simp_all add: world_example_def world_extracted_def world_loaded_def world_transformed_def)

lemma validate_example:
  "validate_raw_data (world_loaded, xcom_loaded) = Inr (world_loaded, xcom_loaded)"
  by (simp add: validate_result xcom_loaded_values render_def loaded_count_of_def batch_rows_def
      world_states) (simp add: row_loaded_def)

lemma transform_example:
  "transform_to_analytics ref_engine (world_loaded, xcom_loaded) = Inr (world_transformed, xcom_loaded)"
  by (simp add: transform_to_analytics_def TRANSFORM_SQL_def xcom_loaded_values render_def
      world_states inserted_loaded)

section \<open>Numeric coercion (C4)\<close>

lemma spec_decimal_pattern_signed: "spec_decimal_pattern s = matches_signed s"
proof
  assume "spec_decimal_pattern s"
  then obtain sign ds frac where
    sg: "sign = [] \<or> sign = ''-''" and ds: "ds \<noteq> []" "list_all is_digit ds" and
    fr: "frac = [] \<or> (\<exists>fs. frac = ''.'' @ fs \<and> list_all is_digit fs)" and
    s: "s = sign @ ds @ frac"
    unfolding spec_decimal_pattern_def by blast
  have "list_all is_digit []" by simp
  with ds fr have "matches_unsigned (ds @ frac)"
    unfolding matches_unsigned_iff by (metis append_Nil2)
  with sg s show "matches_signed s"
    by (auto simp: matches_signed_iff)
next
  assume "matches_signed s"
  then have "\<exists>sign u. (sign = [] \<or> sign = ''-'') \<and> s = sign @ u \<and> matches_unsigned u"
    unfolding matches_signed_iff
  proof
    assume "matches_unsigned s"
    then have "s = [] @ s \<and> matches_unsigned s" by simp
    then show ?thesis by blast
  next
    assume "\<exists>r. s = CHR ''-'' # r \<and> matches_unsigned r"
    then obtain r where "s = ''-'' @ r \<and> matches_unsigned r" by auto
    then show ?thesis by blast
  qed
  then obtain sign u where sg: "sign = [] \<or> sign = ''-''" and s: "s = sign @ u"
    and u: "matches_unsigned u"
    by blast
  from u obtain ds fs where ds: "ds \<noteq> []" "list_all is_digit ds" and fs: "list_all is_digit fs"
    and e: "u = ds @ fs \<or> u = ds @ ''.'' @ fs"
    unfolding matches_unsigned_iff by blast
  from e show "spec_decimal_pattern s"
  proof
    assume "u = ds @ fs"
    then have "s = sign @ (ds @ fs) @ []" "ds @ fs \<noteq> []" "list_all is_digit (ds @ fs)"
      using s ds fs by simp_all
    then show ?thesis unfolding spec_decimal_pattern_def using sg by blast
  next
    assume "u = ds @ ''.'' @ fs"
    then have "s = sign @ ds @ (''.'' @ fs)" using s by simp
    then show ?thesis unfolding spec_decimal_pattern_def using sg ds fs by blast
  qed
qed

text \<open>
  C4, as stated, fails: the texts \<^verbatim>\<open>-1.5\<close> and \<^verbatim>\<open>-10\<close> have the shape the claim
  describes (leading minus, digits, fractional part), yet as a magnitude and as a depth they
  are not coerced to a number: the patterns of \<^verbatim>\<open>magnitud\<close> and \<^verbatim>\<open>profundidad\<close>
  have no minus sign.
\<close>

theorem C4_counterexample:
  "spec_decimal_pattern (TRIM ''-1.5'') \<and> magnitude_of (Some ''-1.5'') = Inr None \<and>
   spec_decimal_pattern (TRIM ''-10'') \<and> depth_km_of (Some ''-10'') = Inr None"
  by (simp add: spec_decimal_pattern_signed cast_eval)

text \<open>
  C4, amended. Latitude and longitude are coerced to a number exactly when the trimmed text
  matches the signed pattern (optional minus, digits, optional point and digits), magnitude
  and depth exactly when it matches the same pattern without the minus sign, in each case
  provided the rounded value fits the precision of the column; a text that does not match the
  field's pattern (free text, blank, a \<^verbatim>\<open>NULL\<close>) gives \<^verbatim>\<open>NULL\<close> and no error. The
  signed pattern is the one the specification describes.
\<close>

theorem C4_numeric_coercion:
  "((\<exists>v. magnitude_of x = Inr (Some v)) =
      (\<exists>t. x = Some t \<and> matches_unsigned (TRIM t) \<and> fits 3 1 (TRIM t))) \<and>
   ((\<exists>v. depth_km_of x = Inr (Some v)) =
      (\<exists>t. x = Some t \<and> matches_unsigned (TRIM t) \<and> fits 6 2 (TRIM t))) \<and>
   ((\<exists>v. latitude_of x = Inr (Some v)) =
      (\<exists>t. x = Some t \<and> matches_signed (TRIM t) \<and> fits 8 5 (TRIM t))) \<and>
   ((\<exists>v. longitude_of x = Inr (Some v)) =
      (\<exists>t. x = Some t \<and> matches_signed (TRIM t) \<and> fits 8 5 (TRIM t))) \<and>
   ((magnitude_of x = Inr None) = (x = None \<or> (\<exists>t. x = Some t \<and> \<not> matches_unsigned (TRIM t)))) \<and>
   ((depth_km_of x = Inr None) = (x = None \<or> (\<exists>t. x = Some t \<and> \<not> matches_unsigned (TRIM t)))) \<and>
   ((latitude_of x = Inr None) = (x = None \<or> (\<exists>t. x = Some t \<and> \<not> matches_signed (TRIM t)))) \<and>
   ((longitude_of x = Inr None) = (x = None \<or> (\<exists>t. x = Some t \<and> \<not> matches_signed (TRIM t)))) \<and>
   matches_signed s = spec_decimal_pattern s \<and>
   matches_unsigned s =
     (\<exists>ds fs. ds \<noteq> [] \<and> list_all is_digit ds \<and> list_all is_digit fs \<and>
        (s = ds @ fs \<or> s = ds @ ''.'' @ fs))"
proof -
  have a: "\<And>p s. (\<exists>v. guarded_cast matches_unsigned p s x = Inr (Some v)) =
      (\<exists>t. x = Some t \<and> matches_unsigned (TRIM t) \<and> fits p s (TRIM t))"
    unfolding guarded_cast_Some_iff using unsigned_imp_signed by blast
  have b: "\<And>p s. (\<exists>v. guarded_cast matches_signed p s x = Inr (Some v)) =
      (\<exists>t. x = Some t \<and> matches_signed (TRIM t) \<and> fits p s (TRIM t))"
    unfolding guarded_cast_Some_iff by blast
  show ?thesis
    unfolding magnitude_of_def depth_km_of_def latitude_of_def longitude_of_def
      a b guarded_cast_None_iff
    using matches_unsigned_iff [of s] spec_decimal_pattern_signed [of s] by simp
qed

text \<open>The two examples of the specification: \<^verbatim>\<open>no calculable\<close> is absent, \<^verbatim>\<open>4.5\<close> is 4.5.\<close>

lemma coercion_examples:
  "magnitude_of (Some ''no calculable'') = Inr None"
  "magnitude_of (Some ''4.5'') = Inr (Some 4.5)"
  "magnitude_of (Some '''') = Inr None"
  "depth_km_of (Some ''en revision'') = Inr None"
  "latitude_of (Some '' -99.2 '') = Inr (Some (- 99.2))"
  by (simp_all add: cast_eval)

section \<open>Significance (C5)\<close>



section \<open>Categories (C6)\<close>


text \<open>
  The values the categories are derived from are those of the casts: a coerced magnitude has
  one decimal place and a coerced depth two, the cast having rounded the text.
\<close>

lemma coerced_scale:
  "magnitude_of x = Inr (Some m) \<Longrightarrow> \<exists>k::int. m = of_int k / 10"
  "depth_km_of y = Inr (Some d) \<Longrightarrow> \<exists>k::int. d = of_int k / 100"
proof -
  show "magnitude_of x = Inr (Some m) \<Longrightarrow> \<exists>k::int. m = of_int k / 10"
    unfolding magnitude_of_def using guarded_cast_scale [of matches_unsigned 3 1 x m] by simp
  show "depth_km_of y = Inr (Some d) \<Longrightarrow> \<exists>k::int. d = of_int k / 100"
    unfolding depth_km_of_def using guarded_cast_scale [of matches_unsigned 6 2 y d] by simp
qed

lemma cast_rounding_examples:
  "magnitude_of (Some ''6.94'') = Inr (Some 6.9)"
  "magnitude_of (Some ''6.999'') = Inr (Some 7)"
  "depth_km_of (Some ''69.994'') = Inr (Some 69.99)"
  "depth_km_of (Some ''69.999'') = Inr (Some 70)"
  by (simp_all add: cast_eval)

section \<open>Re-running the transform (C1)\<close>

text \<open>
  C1, as stated, fails: one qualifying raw row, transformed once, gives one analytics row;
  transformed a second time on the unchanged raw table it gives the same row twice.
\<close>

theorem C1_counterexample:
  "TRANSFORM_SQL ref_engine ''20240101T000000'' [row_good] [] = Inr [analytics_good] \<and>
   TRANSFORM_SQL ref_engine ''20240101T000000'' [row_good] [analytics_good] =
     Inr [analytics_good, analytics_good] \<and>
   \<not> distinct [analytics_good, analytics_good]"
  by (simp add: transform_eval parse_good select_good gate_good)

text \<open>
  C1, amended. The transform only appends: a successful run adds, behind the rows already
  stored and in their order, the selected row of every raw row of the batch that passes the
  gate, and removes nothing. A second run on unchanged raw data succeeds as well and appends
  the same rows once more, so the set of distinct rows is the one left by the first run
  while every row of the batch is stored twice.
\<close>

theorem C1_rerun_appends_again:
  assumes "TRANSFORM_SQL E b raw A = Inr A1"
  shows "\<exists>ps rows.
           list_all2 (\<lambda>r p. parse_row E r = Inr p) (batch_rows b raw) ps \<and>
           rows = map (select_row E) (filter gate ps) \<and>
           inserted_rows E b raw = Inr rows \<and>
           A1 = A @ rows \<and>
           TRANSFORM_SQL E b raw A1 = Inr (A @ rows @ rows) \<and>
           set (A @ rows @ rows) = set A1 \<and>
           length (A @ rows @ rows) = length A1 + length rows"
proof -
  from assms obtain rows where r: "inserted_rows E b raw = Inr rows" and a: "A1 = A @ rows"
    unfolding transform_append by blast
  from r obtain ps where ps: "all_rows (parse_row E) (batch_rows b raw) = Inr ps"
    and rows: "rows = map (select_row E) (filter gate ps)"
    by (auto simp: inserted_rows_def parsed_data_def split: sum.splits)
  have l: "list_all2 (\<lambda>r p. parse_row E r = Inr p) (batch_rows b raw) ps"
    using ps by (simp add: all_rows_Inr_iff)
  have t: "TRANSFORM_SQL E b raw A1 = Inr (A @ rows @ rows)"
    using r a by (simp add: TRANSFORM_SQL_def)
  have s: "set (A @ rows @ rows) = set A1" "length (A @ rows @ rows) = length A1 + length rows"
    using a by auto
  show ?thesis using l rows r a t s by blast
qed

theorem C1_rerun_appends_again_witness:
  "TRANSFORM_SQL ref_engine ''20240101T000000'' [row_good] [] = Inr [analytics_good] \<and>
   (\<exists>ps rows.
      list_all2 (\<lambda>r p. parse_row ref_engine r = Inr p) (batch_rows ''20240101T000000'' [row_good]) ps \<and>
      rows = map (select_row ref_engine) (filter gate ps) \<and>
      inserted_rows ref_engine ''20240101T000000'' [row_good] = Inr rows \<and>
      [analytics_good] = [] @ rows \<and>
      TRANSFORM_SQL ref_engine ''20240101T000000'' [row_good] [analytics_good] = Inr ([] @ rows @ rows) \<and>
      set ([] @ rows @ rows) = set [analytics_good] \<and>
      length ([] @ rows @ rows) = length [analytics_good] + length rows)"
proof -
  have h: "TRANSFORM_SQL ref_engine ''20240101T000000'' [row_good] [] = Inr [analytics_good]"
    by (simp add: transform_eval parse_good select_good gate_good)
  show ?thesis using h C1_rerun_appends_again [OF h] by blast
qed

section \<open>Failures inside the statement (C2)\<close>

text \<open>
  C2, as stated, fails: a row whose numeric fields are all well formed and whose date text is
  \<^verbatim>\<open>sin fecha\<close> makes \<^verbatim>\<open>TO_DATE\<close> raise, and the statement is aborted; nothing is
  inserted, neither for this row nor for the well-formed row next to it.
\<close>

theorem C2_counterexample:
  "TRANSFORM_SQL ref_engine ''20240101T000000'' [row_good, row_bad_date] [] = Inl InvalidDatetimeFormat"
  by (simp add: transform_eval parse_good parse_bad_date)

text \<open>
  C2, amended. A text of magnitude, latitude, longitude or depth that does not match the
  field's pattern never raises: it degrades to an absent value for that field. Date and time
  parsing is not guarded: for any engine, when \<^verbatim>\<open>TO_DATE\<close> or \<^verbatim>\<open>TO_TIMESTAMP\<close> raises on
  the text of a row of the batch that passes the inclusion gate, the whole statement is
  aborted. Only an absent date gives an absent date and timestamp with the row still
  processed.
\<close>

theorem C2_failures:
  "(\<not> matches_unsigned (TRIM t) \<longrightarrow>
      magnitude_of (Some t) = Inr None \<and> depth_km_of (Some t) = Inr None) \<and>
   (\<not> matches_signed (TRIM t) \<longrightarrow>
      latitude_of (Some t) = Inr None \<and> longitude_of (Some t) = Inr None) \<and>
   (r \<in> set (batch_rows b raw) \<and> fecha_utc r = Some f \<and> to_date E f = Inl e \<and>
      magnitude_of (magnitud r) = Inr (Some m) \<and> latitude_of (latitud r) = Inr (Some la) \<and>
      longitude_of (longitud r) = Inr (Some lo) \<longrightarrow>
      (\<exists>e'. TRANSFORM_SQL E b raw A = Inl e')) \<and>
   (r \<in> set (batch_rows b raw) \<and> fecha_utc r = Some f \<and> hora_utc r = Some h \<and>
      to_timestamp E (f @ '' '' @ h) = Inl e \<and>
      magnitude_of (magnitud r) = Inr (Some m) \<and> latitude_of (latitud r) = Inr (Some la) \<and>
      longitude_of (longitud r) = Inr (Some lo) \<longrightarrow>
      (\<exists>e'. TRANSFORM_SQL E b raw A = Inl e')) \<and>
   (fecha_utc r = None \<and> magnitude_of (magnitud r) = Inr mg \<and> latitude_of (latitud r) = Inr lt \<and>
      longitude_of (longitud r) = Inr lg \<and> depth_km_of (profundidad r) = Inr dp \<longrightarrow>
      (\<exists>p. parse_row E r = Inr p \<and> p_earthquake_date p = None \<and> p_earthquake_datetime p = None \<and>
           p_magnitude p = mg \<and> p_latitude p = lt \<and> p_longitude p = lg \<and> p_depth_km p = dp))"
proof -
  have raise: "\<exists>e'. TRANSFORM_SQL E b raw A = Inl e'"
    if "r \<in> set (batch_rows b raw)" "parse_row E r = Inl e0" for e0
    using that all_rows_Inl [of r "batch_rows b raw" "parse_row E" e0]
    by (simp add: transform_error parsed_data_def)
  have d: "\<exists>e'. TRANSFORM_SQL E b raw A = Inl e'"
    if "r \<in> set (batch_rows b raw)" "fecha_utc r = Some f" "to_date E f = Inl e"
  proof -
    have "parse_row E r = Inl e" using that by (simp add: parse_row_def strict_def)
    then show ?thesis using raise that by blast
  qed
  have ts: "\<exists>e'. TRANSFORM_SQL E b raw A = Inl e'"
    if "r \<in> set (batch_rows b raw)" "fecha_utc r = Some f" "hora_utc r = Some h"
      "to_timestamp E (f @ '' '' @ h) = Inl e"
  proof -
    have "\<exists>e0. parse_row E r = Inl e0"
      using that by (auto simp: parse_row_def strict_def concat_ws_space_def split: sum.splits)
    then show ?thesis using raise that by blast
  qed
  show ?thesis
    using d ts
    by (auto simp: magnitude_of_def depth_km_of_def latitude_of_def longitude_of_def
        guarded_cast_None_iff parse_row_def strict_def concat_ws_space_def)
qed

theorem C2_failures_witness:
  "\<not> matches_unsigned (TRIM ''no calculable'') \<and> \<not> matches_signed (TRIM ''no calculable'') \<and>
   magnitude_of (Some ''no calculable'') = Inr None \<and> depth_km_of (Some ''no calculable'') = Inr None \<and>
   latitude_of (Some ''no calculable'') = Inr None \<and> longitude_of (Some ''no calculable'') = Inr None \<and>
   row_bad_date \<in> set (batch_rows ''20240101T000000'' [row_good, row_bad_date]) \<and>
   to_date ref_engine ''sin fecha'' = Inl InvalidDatetimeFormat \<and>
   to_timestamp ref_engine (''sin fecha'' @ '' '' @ ''18:14:40'') = Inl InvalidDatetimeFormat \<and>
   (\<exists>e'. TRANSFORM_SQL ref_engine ''20240101T000000'' [row_good, row_bad_date] [] = Inl e') \<and>
   (\<exists>p. parse_row ref_engine row_no_date = Inr p \<and> p_earthquake_date p = None \<and>
        p_earthquake_datetime p = None \<and> p_magnitude p = Some 5.2)"
proof -
  have m: "\<not> matches_unsigned (TRIM ''no calculable'')" "\<not> matches_signed (TRIM ''no calculable'')"
    by (simp_all add: cast_eval)
  have b: "row_bad_date \<in> set (batch_rows ''20240101T000000'' [row_good, row_bad_date])"
    by (simp add: batch_rows_def example_batch_ids)
  have f: "fecha_utc row_bad_date = Some ''sin fecha''" "hora_utc row_bad_date = Some ''18:14:40''"
    by (simp_all add: row_bad_date_def row_good_def)
  have d: "to_date ref_engine ''sin fecha'' = Inl InvalidDatetimeFormat"
    "to_timestamp ref_engine (''sin fecha'' @ '' '' @ ''18:14:40'') = Inl InvalidDatetimeFormat"
    by (simp_all add: engine_eval is_digit_def)
  have n: "magnitude_of (magnitud row_bad_date) = Inr (Some 5.2)"
    "latitude_of (latitud row_bad_date) = Inr (Some 18.1)"
    "longitude_of (longitud row_bad_date) = Inr (Some (- 99.2))"
    by (simp_all add: row_bad_date_def row_good_def cast_eval)
  have g: "fecha_utc row_no_date = None" "magnitude_of (magnitud row_no_date) = Inr (Some 5.2)"
    "latitude_of (latitud row_no_date) = Inr (Some 18.1)"
    "longitude_of (longitud row_no_date) = Inr (Some (- 99.2))"
    "depth_km_of (profundidad row_no_date) = Inr (Some 10)"
    by (simp_all add: row_no_date_def row_good_def cast_eval)
  note c1 = C2_failures [of "''no calculable''" row_bad_date "''20240101T000000''"
      "[row_good, row_bad_date]" "''sin fecha''" ref_engine InvalidDatetimeFormat
      "5.2" "18.1" "- 99.2" "[]" "''18:14:40''"]
  note c2 = C2_failures [of "''no calculable''" row_no_date "''20240101T000000''"
      "[row_good, row_bad_date]" "''sin fecha''" ref_engine InvalidDatetimeFormat
      "5.2" "18.1" "- 99.2" "[]" "''18:14:40''" "Some 5.2" "Some 18.1" "Some (- 99.2)" "Some 10"]
  have w1: "\<exists>e'. TRANSFORM_SQL ref_engine ''20240101T000000'' [row_good, row_bad_date] [] = Inl e'"
    using c1 b f d(1) n by blast
  have w2: "\<exists>p. parse_row ref_engine row_no_date = Inr p \<and> p_earthquake_date p = None \<and>
        p_earthquake_datetime p = None \<and> p_magnitude p = Some 5.2"
    using c2 g by blast
  have w3: "magnitude_of (Some ''no calculable'') = Inr None \<and> depth_km_of (Some ''no calculable'') = Inr None \<and>
   latitude_of (Some ''no calculable'') = Inr None \<and> longitude_of (Some ''no calculable'') = Inr None"
    using c1 m by blast
  show ?thesis using m b d w1 w2 w3 by blast
qed

section \<open>The inclusion gate (C3)\<close>

text \<open>
  C3, as stated, fails: in a batch of two rows, the first has a well-formed magnitude,
  latitude and longitude, the second a magnitude text \<^verbatim>\<open>100\<close> that matches the pattern but
  overflows \<^verbatim>\<open>NUMERIC(3,1)\<close>. The cast raises, the statement is aborted, and no analytics
  row is inserted for the first row although its three fields coerce.
\<close>

theorem C3_counterexample:
  "magnitude_of (magnitud row_good) = Inr (Some 5.2) \<and>
   latitude_of (latitud row_good) = Inr (Some 18.1) \<and>
   longitude_of (longitud row_good) = Inr (Some (- 99.2)) \<and>
   TRANSFORM_SQL ref_engine ''20240101T000000'' [row_good, row_overflow] [] = Inl NumericValueOutOfRange"
proof -
  have "TRANSFORM_SQL ref_engine ''20240101T000000'' [row_good, row_overflow] [] = Inl NumericValueOutOfRange"
    by (simp add: transform_eval parse_good parse_overflow)
  then show ?thesis by (simp add: row_good_def cast_eval)
qed

text \<open>
  C3, amended. Whenever no expression raises on a row of the batch, the statement completes;
  and whenever it completes, it appends, in order, exactly one analytics row for every raw row
  of the batch whose magnitude, latitude and longitude all coerce to a value, and none for
  the other rows of the batch. No inserted row has an absent magnitude, latitude or
  longitude.
\<close>

theorem C3_inclusion_gate:
  "((\<forall>r \<in> set (batch_rows b raw). \<exists>p. parse_row E r = Inr p) \<longrightarrow>
      (\<exists>A'. TRANSFORM_SQL E b raw A = Inr A')) \<and>
   (TRANSFORM_SQL E b raw A = Inr A' \<longrightarrow>
      (\<exists>ps. list_all2 (\<lambda>r p. parse_row E r = Inr p \<and>
                 gate p = ((\<exists>v. magnitude_of (magnitud r) = Inr (Some v)) \<and>
                           (\<exists>v. latitude_of (latitud r) = Inr (Some v)) \<and>
                           (\<exists>v. longitude_of (longitud r) = Inr (Some v))))
               (batch_rows b raw) ps \<and>
            A' = A @ map (select_row E) (filter gate ps) \<and>
            (\<forall>a \<in> set (map (select_row E) (filter gate ps)).
               magnitude a \<noteq> None \<and> latitude a \<noteq> None \<and> longitude a \<noteq> None)))"
proof (intro conjI impI)
  assume "\<forall>r \<in> set (batch_rows b raw). \<exists>p. parse_row E r = Inr p"
  then obtain ps where "all_rows (parse_row E) (batch_rows b raw) = Inr ps"
    using all_rows_total [of "batch_rows b raw" "parse_row E"] by blast
  then show "\<exists>A'. TRANSFORM_SQL E b raw A = Inr A'"
    by (simp add: TRANSFORM_SQL_def inserted_rows_def parsed_data_def)
next
  assume "TRANSFORM_SQL E b raw A = Inr A'"
  then obtain ps where ps: "all_rows (parse_row E) (batch_rows b raw) = Inr ps"
    and a: "A' = A @ map (select_row E) (filter gate ps)"
    by (auto simp: TRANSFORM_SQL_def inserted_rows_def parsed_data_def split: sum.splits)
  have "list_all2 (\<lambda>r p. parse_row E r = Inr p) (batch_rows b raw) ps"
    using ps by (simp add: all_rows_Inr_iff)
  then have l: "list_all2 (\<lambda>r p. parse_row E r = Inr p \<and>
                 gate p = ((\<exists>v. magnitude_of (magnitud r) = Inr (Some v)) \<and>
                           (\<exists>v. latitude_of (latitud r) = Inr (Some v)) \<and>
                           (\<exists>v. longitude_of (longitud r) = Inr (Some v))))
               (batch_rows b raw) ps"
    by (rule list_all2_mono) (simp add: parse_row_gate)
  have "\<forall>a \<in> set (map (select_row E) (filter gate ps)).
               magnitude a \<noteq> None \<and> latitude a \<noteq> None \<and> longitude a \<noteq> None"
    using gate_select by auto
  with l a show "\<exists>ps. list_all2 (\<lambda>r p. parse_row E r = Inr p \<and>
                 gate p = ((\<exists>v. magnitude_of (magnitud r) = Inr (Some v)) \<and>
                           (\<exists>v. latitude_of (latitud r) = Inr (Some v)) \<and>
                           (\<exists>v. longitude_of (longitud r) = Inr (Some v))))
               (batch_rows b raw) ps \<and>
            A' = A @ map (select_row E) (filter gate ps) \<and>
            (\<forall>a \<in> set (map (select_row E) (filter gate ps)).
               magnitude a \<noteq> None \<and> latitude a \<noteq> None \<and> longitude a \<noteq> None)"
    by blast
qed

text \<open>
  The witness is the end-to-end scenario of the specification: of three rows, one with a
  magnitude \<^verbatim>\<open>not computable\<close> and one with a latitude \<^verbatim>\<open>bad\<close>, exactly the first
  is inserted, as Strong, Shallow and significant.
\<close>

theorem C3_inclusion_gate_witness:
  "TRANSFORM_SQL ref_engine ''20240101T000000'' [row_good, row_not_computable, row_bad_latitude] [] =
     Inr [analytics_good] \<and>
   magnitude_category analytics_good = ''Strong'' \<and> depth_category analytics_good = ''Shallow'' \<and>
   is_significant analytics_good = Some True \<and>
   (\<exists>ps. list_all2 (\<lambda>r p. parse_row ref_engine r = Inr p \<and>
                 gate p = ((\<exists>v. magnitude_of (magnitud r) = Inr (Some v)) \<and>
                           (\<exists>v. latitude_of (latitud r) = Inr (Some v)) \<and>
                           (\<exists>v. longitude_of (longitud r) = Inr (Some v))))
               (batch_rows ''20240101T000000'' [row_good, row_not_computable, row_bad_latitude]) ps \<and>
            [analytics_good] = [] @ map (select_row ref_engine) (filter gate ps) \<and>
            (\<forall>a \<in> set (map (select_row ref_engine) (filter gate ps)).
               magnitude a \<noteq> None \<and> latitude a \<noteq> None \<and> longitude a \<noteq> None))"
proof -
  let ?raw = "[row_good, row_not_computable, row_bad_latitude]"
  have h1: "\<forall>r \<in> set (batch_rows ''20240101T000000'' ?raw). \<exists>p. parse_row ref_engine r = Inr p"
    by (simp add: batch_rows_def example_batch_ids parse_good parse_not_computable parse_bad_latitude)
  have h2: "TRANSFORM_SQL ref_engine ''20240101T000000'' ?raw [] = Inr [analytics_good]"
    by (simp add: transform_eval parse_good parse_not_computable parse_bad_latitude gate_good
        gate_examples select_good)
  have h3: "magnitude_category analytics_good = ''Strong'' \<and> depth_category analytics_good = ''Shallow'' \<and>
   is_significant analytics_good = Some True"
    by (simp add: analytics_good_def)
  show ?thesis
    using h1 h2 h3 C3_inclusion_gate [of "''20240101T000000''" ?raw ref_engine "[]" "[analytics_good]"]
    by blast
qed

section \<open>The schema normalizer (C9)\<close>

lemma normalize_chars:
  "c \<in> set (normalize_column_name U s) \<Longrightarrow> isalnum U c \<or> c = 0x5F"
  by (auto simp: normalize_column_name_def Let_def)

lemma normalize_no_space: "0x20 \<notin> set (normalize_column_name U s)"
  by (auto simp: normalize_column_name_def replace_space_def Let_def)

lemma normalize_from_lower:
  "c \<in> set (normalize_column_name U s) \<Longrightarrow>
     c = 0x5F \<or> c \<in> set (lower U (strip U (filter (\<lambda>c. \<not> is_Mn U c) (nfd U s))))"
  by (auto simp: normalize_column_name_def replace_space_def Let_def split: if_splits)

lemma lower_cp_not_upper: "lower_cp c \<noteq> 0x3D2 \<Longrightarrow> \<not> isupper_cp (lower_cp c)"
  by (auto simp: lower_cp_def isupper_cp_def)

lemma normalize_latin_lowercase:
  "c \<in> set (normalize_column_name latin_ucd s) \<Longrightarrow> c \<noteq> 0x3D2 \<Longrightarrow> \<not> isupper_cp c"
proof -
  assume c: "c \<in> set (normalize_column_name latin_ucd s)" and n: "c \<noteq> 0x3D2"
  from normalize_from_lower [OF c] have "c = 0x5F \<or> (\<exists>d. c = lower_cp d)"
    by (auto simp: latin_ucd_def)
  then show ?thesis
  proof
    assume "c = 0x5F"
    then show ?thesis by (simp add: isupper_cp_def)
  next
    assume "\<exists>d. c = lower_cp d"
    then show ?thesis using n lower_cp_not_upper by blast
  qed
qed

text \<open>
  C9, as stated, fails. Interior white space other than the space character is removed, not
  replaced by an underscore: the label of an \<^verbatim>\<open>a\<close>, a tab and a \<^verbatim>\<open>b\<close> becomes
  \<^verbatim>\<open>ab\<close>. And the output is not always lowercase: the uppercase letter U+03D2 has no
  lowercase form, is alphanumeric, and is returned as it is.
\<close>

theorem C9_counterexample:
  "isspace latin_ucd 0x09 \<and>
   normalize_column_name latin_ucd (ascii ''a'' @ [0x09] @ ascii ''b'') = ascii ''ab'' \<and>
   isupper_cp 0x3D2 \<and> normalize_column_name latin_ucd [0x3D2] = [0x3D2]"
  by (simp add: ucd_eval)

text \<open>
  C9, amended. \<^verbatim>\<open>normalize_column_name\<close> is a function of its argument alone (a total
  function of the model, for any Unicode data). It decomposes the label canonically and
  removes the nonspacing marks, trims white space at both ends, lower-cases, replaces every
  space character U+0020 that is left by an underscore, and removes every character that is
  neither alphanumeric nor an underscore; other interior white space is thereby removed.
  Consequently, for all inputs, every character of the output is an underscore or
  alphanumeric, none is a space, and every character other than an underscore occurs in the
  lower-cased label; on the Latin data no output character other than U+03D2 is an uppercase
  letter; and the label \<^verbatim>\<open>Referencia de Localizacion\<close>, written with an accented o
  (U+00F3) in its last syllable, maps to \<^verbatim>\<open>referencia_de_localizacion\<close>.
\<close>

theorem C9_normalize_column_name:
  "normalize_column_name U s =
     filter (\<lambda>c. isalnum U c \<or> c = 0x5F)
       (replace_space (lower U (strip U (filter (\<lambda>c. \<not> is_Mn U c) (nfd U s))))) \<and>
   (\<forall>c \<in> set (normalize_column_name U s). isalnum U c \<or> c = 0x5F) \<and>
   0x20 \<notin> set (normalize_column_name U s) \<and>
   (\<forall>c \<in> set (normalize_column_name U s).
      c = 0x5F \<or> c \<in> set (lower U (strip U (filter (\<lambda>c. \<not> is_Mn U c) (nfd U s))))) \<and>
   (\<forall>c \<in> set (normalize_column_name latin_ucd s). c \<noteq> 0x3D2 \<longrightarrow> \<not> isupper_cp c) \<and>
   normalize_column_name latin_ucd (ascii ''Referencia de Localizaci'' @ [0xF3] @ ascii ''n'') =
     ascii ''referencia_de_localizacion''"
proof -
  have e: "normalize_column_name latin_ucd (ascii ''Referencia de Localizaci'' @ [0xF3] @ ascii ''n'') =
     ascii ''referencia_de_localizacion''"
    by (simp add: ucd_eval)
  have d: "normalize_column_name U s =
     filter (\<lambda>c. isalnum U c \<or> c = 0x5F)
       (replace_space (lower U (strip U (filter (\<lambda>c. \<not> is_Mn U c) (nfd U s)))))"
    by (simp add: normalize_column_name_def Let_def)
  show ?thesis
    using d e normalize_chars [of _ U s] normalize_no_space [of U s] normalize_from_lower [of _ U s]
      normalize_latin_lowercase [of _ s]
    by blast
qed

theorem C9_normalize_column_name_witness:
  "normalize_column_name latin_ucd (ascii ''Fecha  UTC (d'' @ [0xED] @ ascii ''a)'') =
     ascii ''fecha__utc_dia'' \<and>
   list_all (\<lambda>c. isalnum latin_ucd c \<or> c = 0x5F) (ascii ''fecha__utc_dia'') \<and>
   list_all (\<lambda>c. c \<noteq> 0x3D2 \<longrightarrow> \<not> isupper_cp c) (ascii ''fecha__utc_dia'')"
proof -
  have e: "normalize_column_name latin_ucd (ascii ''Fecha  UTC (d'' @ [0xED] @ ascii ''a)'') =
     ascii ''fecha__utc_dia''"
    by (simp add: ucd_eval)
  show ?thesis
    using C9_normalize_column_name [of latin_ucd "ascii ''Fecha  UTC (d'' @ [0xED] @ ascii ''a)''"]
    unfolding e list_all_iff by blast
qed

section \<open>The validation gate (C7)\<close>

text \<open>
  C7. If the number of raw rows tagged with the batch differs from the extracted record
  count, \<^verbatim>\<open>validate_raw_data\<close> raises its \<^verbatim>\<open>ValueError\<close> (expected and loaded count), and
  in the chain the transform, like every later task, is marked \<^verbatim>\<open>upstream_failed\<close> and
  does not run: the state is left as it was. In a whole run, whenever the validation task
  has failed, the analytics table is the one the run started with.
\<close>

theorem C7_validation_gate:
  "(x (''extract_data'', ''record_count'') \<noteq>
      Some (XInt (loaded_count_of (render (x (''extract_data'', ''batch_id''))) (raw_earthquakes w))) \<longrightarrow>
    validate_raw_data (w, x) =
      Inl (ValueError (x (''extract_data'', ''record_count''))
             (loaded_count_of (render (x (''extract_data'', ''batch_id''))) (raw_earthquakes w))) \<and>
    run_chain (after_load E) (w, x) =
      ((w, x),
       [(''validate_raw_data'',
           failed (ValueError (x (''extract_data'', ''record_count''))
             (loaded_count_of (render (x (''extract_data'', ''batch_id''))) (raw_earthquakes w)))),
        (''transform_data.transform_to_analytics'', upstream_failed),
        (''transform_data.calculate_statistics'', upstream_failed),
        (''export_to_parquet'', upstream_failed)])) \<and>
   (map_of (snd (run_dag U E ctx w0)) ''validate_raw_data'' = Some (failed e) \<longrightarrow>
      analytics_earthquakes (fst (fst (run_dag U E ctx w0))) = analytics_earthquakes w0 \<and>
      map_of (snd (run_dag U E ctx w0)) ''transform_data.transform_to_analytics'' = Some upstream_failed)"
proof (intro conjI impI)
  assume a: "x (''extract_data'', ''record_count'') \<noteq>
      Some (XInt (loaded_count_of (render (x (''extract_data'', ''batch_id''))) (raw_earthquakes w)))"
  then show v: "validate_raw_data (w, x) =
      Inl (ValueError (x (''extract_data'', ''record_count''))
             (loaded_count_of (render (x (''extract_data'', ''batch_id''))) (raw_earthquakes w)))"
    by (simp add: validate_result)
  show "run_chain (after_load E) (w, x) =
      ((w, x),
       [(''validate_raw_data'',
           failed (ValueError (x (''extract_data'', ''record_count''))
             (loaded_count_of (render (x (''extract_data'', ''batch_id''))) (raw_earthquakes w)))),
        (''transform_data.transform_to_analytics'', upstream_failed),
        (''transform_data.calculate_statistics'', upstream_failed),
        (''export_to_parquet'', upstream_failed)])"
    using run_after_load_failed [OF v] .
next
  assume f: "map_of (snd (run_dag U E ctx w0)) ''validate_raw_data'' = Some (failed e)"
  show "analytics_earthquakes (fst (fst (run_dag U E ctx w0))) = analytics_earthquakes w0"
  proof (cases "extract_earthquake_data U ctx (w0, Map.empty)")
    case (Inl e1)
    then show ?thesis by (simp add: run_dag_def dag_def run_with_retries_eq)
  next
    case (Inr s1)
    then have a1: "analytics_earthquakes (fst s1) = analytics_earthquakes w0"
      using extract_success [of U ctx w0 Map.empty "fst s1" "snd s1"] by auto
    show ?thesis
    proof (cases "load_raw_data ctx s1")
      case (Inl e2)
      then show ?thesis using Inr a1 by (simp add: run_dag_def dag_def run_with_retries_eq)
    next
      case l: (Inr s2)
      obtain w1 x1 w2 x2 where s: "s1 = (w1, x1)" "s2 = (w2, x2)" by (cases s1, cases s2) auto
      from l s load_result [of ctx w1 x1 w2 x2]
      have a2: "analytics_earthquakes (fst s2) = analytics_earthquakes (fst s1)" by auto
      show ?thesis
      proof (cases "validate_raw_data s2")
        case (Inl e3)
        then show ?thesis
          using Inr l a1 a2
          by (simp add: run_dag_def dag_def run_with_retries_eq run_after_load_failed)
      next
        case v: (Inr s3)
        have "map_of (snd (run_dag U E ctx w0)) ''validate_raw_data'' = Some success"
          using Inr l v
          by (simp add: run_dag_def dag_def after_load_def run_with_retries_eq split: sum.splits prod.splits)
        with f show ?thesis by simp
      qed
    qed
  qed
next
  assume f: "map_of (snd (run_dag U E ctx w0)) ''validate_raw_data'' = Some (failed e)"
  show "map_of (snd (run_dag U E ctx w0)) ''transform_data.transform_to_analytics'' = Some upstream_failed"
  proof (cases "extract_earthquake_data U ctx (w0, Map.empty)")
    case (Inl e1)
    then show ?thesis using f by (simp add: run_dag_def dag_def after_load_def run_with_retries_eq)
  next
    case (Inr s1)
    show ?thesis
    proof (cases "load_raw_data ctx s1")
      case (Inl e2)
      then show ?thesis using Inr f by (simp add: run_dag_def dag_def after_load_def run_with_retries_eq)
    next
      case l: (Inr s2)
      show ?thesis
      proof (cases "validate_raw_data s2")
        case (Inl e3)
        then show ?thesis
          using Inr l
          by (simp add: run_dag_def dag_def run_with_retries_eq run_after_load_failed)
      next
        case v: (Inr s3)
        have "map_of (snd (run_dag U E ctx w0)) ''validate_raw_data'' = Some success"
          using Inr l v
          by (simp add: run_dag_def dag_def after_load_def run_with_retries_eq split: sum.splits prod.splits)
        with f show ?thesis by simp
      qed
    qed
  qed
qed

text \<open>
  The witness: the example of the specification (100 records expected, 99 loaded), and a run
  for a batch of which the raw table already holds a row (1 expected, 2 loaded).
\<close>

theorem C7_validation_gate_witness:
  "validate_raw_data (world_99, xcom_100) = Inl (ValueError (Some (XInt 100)) 99) \<and>
   run_chain (after_load ref_engine) (world_99, xcom_100) =
      ((world_99, xcom_100),
       [(''validate_raw_data'', failed (ValueError (Some (XInt 100)) 99)),
        (''transform_data.transform_to_analytics'', upstream_failed),
        (''transform_data.calculate_statistics'', upstream_failed),
        (''export_to_parquet'', upstream_failed)]) \<and>
   map_of (snd (run_dag latin_ucd ref_engine ctx_example world_rerun)) ''validate_raw_data'' =
     Some (failed (ValueError (Some (XInt 1)) 2)) \<and>
   analytics_earthquakes (fst (fst (run_dag latin_ucd ref_engine ctx_example world_rerun))) = [] \<and>
   map_of (snd (run_dag latin_ucd ref_engine ctx_example world_rerun))
     ''transform_data.transform_to_analytics'' = Some upstream_failed"
proof -
  have x: "xcom_100 (''extract_data'', ''record_count'') = Some (XInt 100)"
    "xcom_100 (''extract_data'', ''batch_id'') = Some (XStr ''20240101T000000'')"
    by (simp_all add: xcom_100_def)
  have c: "loaded_count_of ''20240101T000000'' (raw_earthquakes world_99) = 99"
    by (simp add: loaded_count_of_def batch_rows_def world_99_def example_batch_ids)
  have h1: "xcom_100 (''extract_data'', ''record_count'') \<noteq>
      Some (XInt (loaded_count_of (render (xcom_100 (''extract_data'', ''batch_id'')))
        (raw_earthquakes world_99)))"
    by (simp add: x c render_def)
  have h2: "map_of (snd (run_dag latin_ucd ref_engine ctx_example world_rerun)) ''validate_raw_data'' =
     Some (failed (ValueError (Some (XInt 1)) 2))"
    by (simp add: run_dag_rerun)
  have a0: "analytics_earthquakes world_rerun = []"
    by (simp add: world_rerun_def world_example_def)
  show ?thesis
    using h1 h2 a0
      C7_validation_gate [of xcom_100 world_99 ref_engine latin_ucd ctx_example world_rerun
        "ValueError (Some (XInt 1)) 2"]
    by (simp add: x c render_def)
qed

section \<open>Re-extraction for an existing batch (C8)\<close>




section \<open>One batch identifier per run (C10)\<close>

text \<open>
  C10. The extractor publishes the run timestamp as \<^verbatim>\<open>batch_id\<close>; the loader, the
  validator and the transform pull that entry, which no task changes: the rows the loader
  appends are tagged with it, the validator counts the raw rows tagged with it, and the
  transform reads the raw rows tagged with it and tags every analytics row it inserts with it.
\<close>

theorem C10_shared_batch_id:
  "(extract_earthquake_data U ctx (w, x) = Inr (w1, x1) \<longrightarrow>
      x1 (''extract_data'', ''batch_id'') = Some (XStr (ts_nodash ctx))) \<and>
   (x1 (''extract_data'', ''batch_id'') = Some (XStr b) \<and> load_raw_data ctx (w1, x1) = Inr (w2, x2) \<longrightarrow>
      x2 (''extract_data'', ''batch_id'') = Some (XStr b) \<and>
      x2 (''extract_data'', ''record_count'') = x1 (''extract_data'', ''record_count'') \<and>
      (\<exists>new. raw_earthquakes w2 = raw_earthquakes w1 @ new \<and>
             list_all (\<lambda>r. raw_batch_id r = Some b) new)) \<and>
   (x2 (''extract_data'', ''batch_id'') = Some (XStr b) \<longrightarrow>
      validate_raw_data (w2, x2) =
        (if x2 (''extract_data'', ''record_count'') =
              Some (XInt (length (batch_rows b (raw_earthquakes w2))))
         then Inr (w2, x2)
         else Inl (ValueError (x2 (''extract_data'', ''record_count''))
                     (length (batch_rows b (raw_earthquakes w2)))))) \<and>
   (x2 (''extract_data'', ''batch_id'') = Some (XStr b) \<and>
    transform_to_analytics E (w2, x2) = Inr (w3, x3) \<longrightarrow>
      x3 = x2 \<and>
      (\<exists>rows. inserted_rows E b (raw_earthquakes w2) = Inr rows \<and>
              analytics_earthquakes w3 = analytics_earthquakes w2 @ rows \<and>
              list_all (\<lambda>a. batch_id a = Some b) rows))"
proof (intro conjI impI)
  assume "extract_earthquake_data U ctx (w, x) = Inr (w1, x1)"
  then show "x1 (''extract_data'', ''batch_id'') = Some (XStr (ts_nodash ctx))"
    using extract_success [of U ctx w x w1 x1] by auto
next
  assume a: "x1 (''extract_data'', ''batch_id'') = Some (XStr b) \<and>
    load_raw_data ctx (w1, x1) = Inr (w2, x2)"
  then have l: "load_raw_data ctx (w1, x1) = Inr (w2, x2)" by simp
  from load_result [OF l] obtain path df where
    p: "x1 (''extract_data'', ''raw_file'') = Some (XStr path)" and f: "files w1 path = Some df" and
    w2: "w2 = w1\<lparr>raw_earthquakes := raw_earthquakes w1 @
                   map (to_raw_row (map rename_column (columns df)) (x1 (''extract_data'', ''batch_id'')) (now ctx))
                     (df_rows df)\<rparr>"
    and x2: "x2 = x1((''load_raw_data'', ''loaded_records'') \<mapsto> XInt (length (df_rows df)))"
    by (elim exE conjE)
  show "x2 (''extract_data'', ''batch_id'') = Some (XStr b)"
    using a x2 by simp
  show "x2 (''extract_data'', ''record_count'') = x1 (''extract_data'', ''record_count'')"
    using x2 by simp
  have "list_all (\<lambda>r. raw_batch_id r = Some b)
      (map (to_raw_row (map rename_column (columns df)) (x1 (''extract_data'', ''batch_id'')) (now ctx))
        (df_rows df))"
    using a by (simp add: list_all_iff to_raw_row_def render_def)
  then show "\<exists>new. raw_earthquakes w2 = raw_earthquakes w1 @ new \<and>
             list_all (\<lambda>r. raw_batch_id r = Some b) new"
    using w2 by simp
next
  assume "x2 (''extract_data'', ''batch_id'') = Some (XStr b)"
  then show "validate_raw_data (w2, x2) =
        (if x2 (''extract_data'', ''record_count'') =
              Some (XInt (length (batch_rows b (raw_earthquakes w2))))
         then Inr (w2, x2)
         else Inl (ValueError (x2 (''extract_data'', ''record_count''))
                     (length (batch_rows b (raw_earthquakes w2)))))"
    by (simp add: validate_result render_def loaded_count_of_def)
next
  assume a: "x2 (''extract_data'', ''batch_id'') = Some (XStr b) \<and>
    transform_to_analytics E (w2, x2) = Inr (w3, x3)"
  then show "x3 = x2" using transform_task_result [of E w2 x2 w3 x3] by simp
  from a obtain rows where r: "inserted_rows E b (raw_earthquakes w2) = Inr rows"
    and w3: "w3 = w2\<lparr>analytics_earthquakes := analytics_earthquakes w2 @ rows\<rparr>"
    using transform_task_result [of E w2 x2 w3 x3] by (auto simp: render_def)
  then show "\<exists>rows. inserted_rows E b (raw_earthquakes w2) = Inr rows \<and>
              analytics_earthquakes w3 = analytics_earthquakes w2 @ rows \<and>
              list_all (\<lambda>a. batch_id a = Some b) rows"
    using inserted_batch_ids [OF r] by simp
qed

text \<open>The witness: a complete run on the example file, stage by stage.\<close>

theorem C10_shared_batch_id_witness:
  "extract_earthquake_data latin_ucd ctx_example (world_example, Map.empty) =
     Inr (world_extracted, xcom_extracted) \<and>
   xcom_extracted (''extract_data'', ''batch_id'') = Some (XStr ''20240101T000000'') \<and>
   load_raw_data ctx_example (world_extracted, xcom_extracted) = Inr (world_loaded, xcom_loaded) \<and>
   xcom_loaded (''extract_data'', ''batch_id'') = Some (XStr ''20240101T000000'') \<and>
   (\<exists>new. raw_earthquakes world_loaded = raw_earthquakes world_extracted @ new \<and>
          list_all (\<lambda>r. raw_batch_id r = Some ''20240101T000000'') new) \<and>
   validate_raw_data (world_loaded, xcom_loaded) = Inr (world_loaded, xcom_loaded) \<and>
   transform_to_analytics ref_engine (world_loaded, xcom_loaded) = Inr (world_transformed, xcom_loaded) \<and>
   (\<exists>rows. inserted_rows ref_engine ''20240101T000000'' (raw_earthquakes world_loaded) = Inr rows \<and>
           analytics_earthquakes world_transformed = analytics_earthquakes world_loaded @ rows \<and>
           list_all (\<lambda>a. batch_id a = Some ''20240101T000000'') rows)"
proof -
  have e: "extract_earthquake_data latin_ucd ctx_example (world_example, Map.empty) =
     Inr (world_extracted, xcom_extracted)"
    using extract_example [of "[]"] by (simp add: world_states)
  have l: "load_raw_data ctx_example (world_extracted, xcom_extracted) = Inr (world_loaded, xcom_loaded)"
    using load_example [of "[]"] by (simp add: world_states)
  have t: "ts_nodash ctx_example = ''20240101T000000''"
    by (simp add: ctx_example_def)
  note c = C10_shared_batch_id [where U = latin_ucd and ctx = ctx_example and w = world_example
      and x = Map.empty and ?w1.0 = world_extracted and ?x1.0 = xcom_extracted
      and b = "''20240101T000000''" and ?w2.0 = world_loaded and ?x2.0 = xcom_loaded
      and E = ref_engine and ?w3.0 = world_transformed and ?x3.0 = xcom_loaded]
  have b1: "xcom_extracted (''extract_data'', ''batch_id'') = Some (XStr ''20240101T000000'')"
    using c e t by simp
  have b2: "xcom_loaded (''extract_data'', ''batch_id'') = Some (XStr ''20240101T000000'') \<and>
     (\<exists>new. raw_earthquakes world_loaded = raw_earthquakes world_extracted @ new \<and>
          list_all (\<lambda>r. raw_batch_id r = Some ''20240101T000000'') new)"
    using c b1 l by blast
  have b3: "\<exists>rows. inserted_rows ref_engine ''20240101T000000'' (raw_earthquakes world_loaded) = Inr rows \<and>
           analytics_earthquakes world_transformed = analytics_earthquakes world_loaded @ rows \<and>
           list_all (\<lambda>a. batch_id a = Some ''20240101T000000'') rows"
    using c b2 transform_example by blast
  show ?thesis
    using e l b1 b2 b3 validate_example transform_example by blast
qed

end
